theory Spec2Isabelle
  imports Main "HOL-Library.Sublist" "HOL-Library.List_Lexorder"
begin

section \<open>Strings and dictionaries of the Python source\<close>

text \<open>
  A Python \<open>str\<close> is modelled as a \<open>string\<close>, one \<open>char\<close> per code point; the model
  is restricted to code points below 256. A Python \<open>dict\<close> is an association list in
  insertion order whose keys are distinct; \<open>Optional[str]\<close> is \<open>string option\<close>.
\<close>

type_synonym ('k, 'v) pydict = "('k \<times> 'v) list"

text \<open>\<open>d.get(k)\<close>: the value stored under \<open>k\<close>, or \<open>None\<close>.\<close>

definition dict_get :: "('k, 'v) pydict \<Rightarrow> 'k \<Rightarrow> 'v option" where
  "dict_get d k = map_of d k"

text \<open>\<open>d[k] = v\<close>: an existing key keeps its place and takes the new value; a new key
  is appended.\<close>

fun dict_set :: "('k, 'v) pydict \<Rightarrow> 'k \<Rightarrow> 'v \<Rightarrow> ('k, 'v) pydict" where
  "dict_set [] k v = [(k, v)]"
| "dict_set ((k', v') # d) k v =
     (if k' = k then (k, v) # d else (k', v') # dict_set d k v)"

text \<open>Truth value of an \<open>Optional[str]\<close> in a condition: \<open>None\<close> and \<open>""\<close> are false.\<close>

fun truthy :: "string option \<Rightarrow> bool" where
  "truthy None = False"
| "truthy (Some v) = (v \<noteq> [])"

text \<open>\<open>str(v)\<close> of an \<open>Optional[str]\<close>: the string itself, and \<open>"None"\<close> for \<open>None\<close>.\<close>

fun py_str :: "string option \<Rightarrow> string" where
  "py_str None = ''None''"
| "py_str (Some v) = v"

text \<open>\<open>a or b\<close> on \<open>Optional[str]\<close> values.\<close>

definition py_or :: "string option \<Rightarrow> string option \<Rightarrow> string option" where
  "py_or a b = (if truthy a then a else b)"

text \<open>\<open>sep.join(xs)\<close>.\<close>

fun join :: "string \<Rightarrow> string list \<Rightarrow> string" where
  "join sep [] = []"
| "join sep [x] = x"
| "join sep (x # y # ys) = x @ sep @ join sep (y # ys)"

text \<open>Character tests. \<open>is_space\<close> is \<open>str.isspace\<close> of one character, which is also the
  class \<open>\s\<close> of a \<open>str\<close> pattern; \<open>lower\<close> and \<open>upper\<close> are the case mappings that stay
  below code point 256. \<open>strip\<close> is \<open>s.strip()\<close>.\<close>

definition code_point :: "char \<Rightarrow> nat" where
  "code_point c = of_char c"

definition is_space :: "char \<Rightarrow> bool" where
  "is_space c = (let n = code_point c in
      (9 \<le> n \<and> n \<le> 13) \<or> (28 \<le> n \<and> n \<le> 32) \<or> n = 133 \<or> n = 160)"

definition is_digit :: "char \<Rightarrow> bool" where
  "is_digit c = (let n = code_point c in 48 \<le> n \<and> n \<le> 57)"

definition in_range :: "char \<Rightarrow> char \<Rightarrow> char \<Rightarrow> bool" where
  "in_range a b c = (code_point a \<le> code_point c \<and> code_point c \<le> code_point b)"

definition lower :: "char \<Rightarrow> char" where
  "lower c = (let n = code_point c in
      if (65 \<le> n \<and> n \<le> 90) \<or> (192 \<le> n \<and> n \<le> 222 \<and> n \<noteq> 215)
      then char_of (n + 32) else c)"

definition upper :: "char \<Rightarrow> char" where
  "upper c = (let n = code_point c in
      if (97 \<le> n \<and> n \<le> 122) \<or> (224 \<le> n \<and> n \<le> 254 \<and> n \<noteq> 247)
      then char_of (n - 32) else c)"

text \<open>A character with bit \<open>0x20\<close> set or cleared: for a letter, its other case.\<close>

definition with_bit5 :: "bool \<Rightarrow> char \<Rightarrow> char" where
  "with_bit5 b c = (case c of Char b0 b1 b2 b3 b4 b5 b6 b7 \<Rightarrow> Char b0 b1 b2 b3 b4 b b6 b7)"

definition strip :: "string \<Rightarrow> string" where
  "strip s = rev (dropWhile is_space (rev (dropWhile is_space s)))"

section \<open>The regular expressions of cms\_parser.py\<close>

text \<open>
  The patterns of the parser use literal text, alternation, the line anchor and greedy
  repetition of a single character class, followed by one capturing group. \<open>Rep cls lo hi\<close>
  is the class \<open>cls\<close> repeated \<open>lo\<close> to \<open>hi\<close> times (\<open>None\<close>: unbounded), \<open>Bol\<close> is \<open>^\<close> under
  \<open>re.MULTILINE\<close>. The flag \<open>ic\<close> is \<open>re.IGNORECASE\<close>: a character is then in a class when
  it, its lower case or its upper case is, which is what \<open>re\<close> does for the classes used
  here.

  \<open>rx_match\<close> lists the prefixes of the input that an expression can consume, in the
  order in which the backtracking matcher of \<open>re\<close> tries them (an earlier alternative
  first, a longer repetition first); \<open>prev\<close> is the character before the input.
\<close>

datatype rx =
    Lit string
  | Rep "char \<Rightarrow> bool" nat "nat option"
  | Bol
  | Seq rx rx
  | Alt rx rx

definition in_class :: "bool \<Rightarrow> (char \<Rightarrow> bool) \<Rightarrow> char \<Rightarrow> bool" where
  "in_class ic cls c = (if ic then cls c \<or> cls (lower c) \<or> cls (upper c) else cls c)"

definition same_char :: "bool \<Rightarrow> char \<Rightarrow> char \<Rightarrow> bool" where
  "same_char ic p c = (if ic then lower c = lower p else c = p)"

definition after :: "char option \<Rightarrow> string \<Rightarrow> char option" where
  "after prev c = (if c = [] then prev else Some (last c))"

fun rx_match :: "bool \<Rightarrow> rx \<Rightarrow> char option \<Rightarrow> string \<Rightarrow> string list" where
  "rx_match ic (Lit p) prev s =
     (if length p \<le> length s \<and> list_all2 (same_char ic) p (take (length p) s)
      then [take (length p) s] else [])"
| "rx_match ic (Rep cls lo hi) prev s =
     (let run = length (takeWhile (in_class ic cls) s);
          n = (case hi of None \<Rightarrow> run | Some h \<Rightarrow> min h run)
      in map (\<lambda>k. take k s) (rev [lo ..< Suc n]))"
| "rx_match ic Bol prev s =
     (if prev = None \<or> prev = Some (CHR 0x0A) then [[]] else [])"
| "rx_match ic (Seq a b) prev s =
     concat (map (\<lambda>c1. map (\<lambda>c2. c1 @ c2)
                          (rx_match ic b (after prev c1) (drop (length c1) s)))
                 (rx_match ic a prev s))"
| "rx_match ic (Alt a b) prev s = rx_match ic a prev s @ rx_match ic b prev s"


text \<open>A pattern of the source: what stands before the capturing group, and the group.
  \<open>pat_match\<close> lists the matches that start at the current position as pairs (text
  before the group, text of the group), in backtracking order.\<close>

datatype pattern = Pattern rx rx

fun pat_match :: "bool \<Rightarrow> pattern \<Rightarrow> char option \<Rightarrow> string \<Rightarrow> (string \<times> string) list" where
  "pat_match ic (Pattern pre grp) prev s =
     concat (map (\<lambda>c1. map (\<lambda>g. (c1, g))
                          (rx_match ic grp (after prev c1) (drop (length c1) s)))
                 (rx_match ic pre prev s))"

text \<open>\<open>re.search\<close>: the first match at the leftmost position that has one.\<close>

fun re_search :: "bool \<Rightarrow> pattern \<Rightarrow> char option \<Rightarrow> string \<Rightarrow> (string \<times> string) option" where
  "re_search ic p prev [] =
     (case pat_match ic p prev [] of m # _ \<Rightarrow> Some m | [] \<Rightarrow> None)"
| "re_search ic p prev (x # xs) =
     (case pat_match ic p prev (x # xs) of
        m # _ \<Rightarrow> Some m
      | [] \<Rightarrow> re_search ic p (Some x) xs)"

lemma rx_match_prefix: "c \<in> set (rx_match ic r prev s) \<Longrightarrow> take (length c) s = c"
proof (induction r arbitrary: c prev s)
  case (Lit p)
  then show ?case by (auto split: if_splits)
next
  case (Rep cls lo hi)
  then show ?case by (auto simp: Let_def min_def split: option.splits)
next
  case Bol
  then show ?case by (auto split: if_splits)
next
  case (Seq a b)
  from Seq.prems obtain c1 c2 where c1: "c1 \<in> set (rx_match ic a prev s)"
    and c2: "c2 \<in> set (rx_match ic b (after prev c1) (drop (length c1) s))"
    and c: "c = c1 @ c2" by auto
  have 1: "take (length c1) s = c1" using Seq.IH(1)[OF c1] .
  have 2: "take (length c2) (drop (length c1) s) = c2" using Seq.IH(2)[OF c2] .
  show ?case unfolding c using 1 2 by (metis length_append take_add)
next
  case (Alt a b)
  then show ?case by auto
qed

lemma pat_match_length:
  "(c1, g) \<in> set (pat_match ic p prev s) \<Longrightarrow> s = c1 @ g @ drop (length c1 + length g) s"
proof (cases p)
  case (Pattern pre grp)
  assume "(c1, g) \<in> set (pat_match ic p prev s)"
  with Pattern have a: "c1 \<in> set (rx_match ic pre prev s)"
    and b: "g \<in> set (rx_match ic grp (after prev c1) (drop (length c1) s))" by auto
  have "take (length c1) s = c1" using rx_match_prefix[OF a] .
  moreover have "take (length g) (drop (length c1) s) = g" using rx_match_prefix[OF b] .
  ultimately show ?thesis
    by (metis append_take_drop_id drop_drop add.commute)
qed

text \<open>\<open>re.findall\<close> with one group: the group of each match, scanning on from the end of
  the previous match (one character further after an empty match).\<close>

function re_findall :: "bool \<Rightarrow> pattern \<Rightarrow> char option \<Rightarrow> string \<Rightarrow> string list" where
  "re_findall ic p prev s =
     (case pat_match ic p prev s of
        [] \<Rightarrow> (case s of [] \<Rightarrow> [] | x # xs \<Rightarrow> re_findall ic p (Some x) xs)
      | (c1, g) # _ \<Rightarrow>
          (if c1 @ g = [] then g # (case s of [] \<Rightarrow> [] | x # xs \<Rightarrow> re_findall ic p (Some x) xs)
           else g # re_findall ic p (Some (last (c1 @ g))) (drop (length (c1 @ g)) s)))"
  by pat_completeness auto
termination
proof (relation "measure (\<lambda>(ic, p, prev, s). length s)")
  show "wf (measure (\<lambda>(ic, p, prev, s). length s))" by simp
next
  fix ic p prev s x xs
  assume "s = x # xs"
  then show "((ic, p, Some x, xs), (ic, p, prev, s)) \<in> measure (\<lambda>(ic, p, prev, s). length s)"
    by simp
next
  fix ic p prev s m ms c1 g x xs
  assume "s = x # xs"
  then show "((ic, p, Some x, xs), (ic, p, prev, s)) \<in> measure (\<lambda>(ic, p, prev, s). length s)"
    by simp
next
  fix ic :: bool and p prev s m ms c1 g
  assume pm: "pat_match ic p prev s = m # ms" and m: "(c1, g) = m" and ne: "c1 @ g \<noteq> []"
  define n where "n = length (c1 @ g)"
  have "(c1, g) \<in> set (pat_match ic p prev s)" using pm m by simp
  from pat_match_length[OF this] have "length s = n + length (drop n s)"
    unfolding n_def by (metis length_append add.assoc)
  moreover have "0 < n" using ne unfolding n_def by simp
  ultimately have "length (drop n s) < length s" by arith
  then show "((ic, p, Some (last (c1 @ g)), drop (length (c1 @ g)) s), (ic, p, prev, s))
       \<in> measure (\<lambda>(ic, p, prev, s). length s)"
    unfolding n_def by simp
qed

section \<open>models.py: the record and the default field mapping\<close>

record CmsReportData =
  wind_farm :: "string option"
  turbine_number :: "string option"
  turbine_type :: "string option"
  location :: "string option"
  service_life_year :: "string option"
  technicians :: "string option"
  service_manager :: "string option"
  commissioning_date :: "string option"
  service_date :: "string option"
  ddaus_mac :: "string option"
  ip_address :: "string option"
  turbine_ip :: "string option"
  gateway :: "string option"
  controller_type :: "string option"
  das_server :: "string option"
  serial_number :: "string option"
  firmware_version :: "string option"
  raw_text :: "string option"

text \<open>The instance's \<open>__dict__\<close>: every declared attribute, in declaration order.\<close>

definition instance_dict :: "CmsReportData \<Rightarrow> (string, string option) pydict" where
  "instance_dict c =
     [(''wind_farm'', wind_farm c),
      (''turbine_number'', turbine_number c),
      (''turbine_type'', turbine_type c),
      (''location'', location c),
      (''service_life_year'', service_life_year c),
      (''technicians'', technicians c),
      (''service_manager'', service_manager c),
      (''commissioning_date'', commissioning_date c),
      (''service_date'', service_date c),
      (''ddaus_mac'', ddaus_mac c),
      (''ip_address'', ip_address c),
      (''turbine_ip'', turbine_ip c),
      (''gateway'', gateway c),
      (''controller_type'', controller_type c),
      (''das_server'', das_server c),
      (''serial_number'', serial_number c),
      (''firmware_version'', firmware_version c),
      (''raw_text'', raw_text c)]"

text \<open>The names of the declared attributes of \<open>CmsReportData\<close>.\<close>

definition CmsReportData_attributes :: "string list" where
  "CmsReportData_attributes =
     [''wind_farm'', ''turbine_number'', ''turbine_type'', ''location'',
      ''service_life_year'', ''technicians'', ''service_manager'',
      ''commissioning_date'', ''service_date'', ''ddaus_mac'', ''ip_address'',
      ''turbine_ip'', ''gateway'', ''controller_type'', ''das_server'',
      ''serial_number'', ''firmware_version'', ''raw_text'']"

text \<open>\<open>CmsReportData()\<close>: every attribute has the default \<open>None\<close>.\<close>

definition CmsReportData_defaults :: CmsReportData where
  "CmsReportData_defaults =
     \<lparr> wind_farm = None, turbine_number = None, turbine_type = None, location = None,
       service_life_year = None, technicians = None, service_manager = None,
       commissioning_date = None, service_date = None, ddaus_mac = None, ip_address = None,
       turbine_ip = None, gateway = None, controller_type = None, das_server = None,
       serial_number = None, firmware_version = None, raw_text = None \<rparr>"

text \<open>\<open>to_dict\<close>: the attributes that are not \<open>None\<close>, without \<open>raw_text\<close>.\<close>

fun to_dict_items :: "(string, string option) pydict \<Rightarrow> (string, string) pydict" where
  "to_dict_items [] = []"
| "to_dict_items ((k, None) # kvs) = to_dict_items kvs"
| "to_dict_items ((k, Some v) # kvs) =
     (if k \<noteq> ''raw_text'' then (k, v) # to_dict_items kvs else to_dict_items kvs)"

definition to_dict :: "CmsReportData \<Rightarrow> (string, string) pydict" where
  "to_dict c = to_dict_items (instance_dict c)"

definition CMS_TO_SIF_MAP :: "(string, string) pydict" where
  "CMS_TO_SIF_MAP =
     [(''wind_farm'', ''Wind farm number''),
      (''turbine_number'', ''Wind turbine number''),
      (''turbine_type'', ''Wind turbine type_2''),
      (''location'', ''Site location''),
      (''service_life_year'', ''Service life year''),
      (''technicians'', ''Service technician 1''),
      (''service_manager'', ''Service manager''),
      (''commissioning_date'', ''DateRow1''),
      (''service_date'', ''Date''),
      (''ddaus_mac'', ''MAC address DDAU''),
      (''ip_address'', ''IP address DDAU''),
      (''turbine_ip'', ''IP address of the wind turbine''),
      (''gateway'', ''Gateway''),
      (''controller_type'', ''Controller type''),
      (''das_server'', ''DAS Server''),
      (''serial_number'', ''Serial number''),
      (''firmware_version'', ''Firmware version''),
      (''gearbox_info'', ''Gearbox manufacturer type and gearbox ratio''),
      (''generator_info'', ''Generator manufacturer and type''),
      (''main_bearing_info'', ''Main bearing manufacturer and type''),
      (''hub_height'', ''Hub height optional''),
      (''owner'', ''Owner optional''),
      (''service_car'', ''Service car number optional'')]"

section \<open>cms\_parser.py: the extraction engine\<close>

text \<open>The character classes of the patterns.\<close>

definition colon_space :: "char \<Rightarrow> bool" where
  "colon_space c = (c = CHR '':'' \<or> is_space c)"

definition colon_space_hash :: "char \<Rightarrow> bool" where
  "colon_space_hash c = (c = CHR '':'' \<or> is_space c \<or> c = CHR ''#'')"

definition not_newline :: "char \<Rightarrow> bool" where
  "not_newline c = (c \<noteq> CHR 0x0A)"

definition upper_alnum_dash :: "char \<Rightarrow> bool" where
  "upper_alnum_dash c = (in_range CHR ''A'' CHR ''Z'' c \<or> is_digit c \<or> c = CHR ''-'')"

definition upper_letter :: "char \<Rightarrow> bool" where
  "upper_letter c = in_range CHR ''A'' CHR ''Z'' c"

definition lower_letter :: "char \<Rightarrow> bool" where
  "lower_letter c = in_range CHR ''a'' CHR ''z'' c"

definition date_char :: "char \<Rightarrow> bool" where
  "date_char c = (is_digit c \<or> c = CHR ''/'' \<or> c = CHR ''-'' \<or> c = CHR ''.'')"

definition hex_colon :: "char \<Rightarrow> bool" where
  "hex_colon c = (in_range CHR ''A'' CHR ''F'' c \<or> is_digit c \<or> c = CHR '':'')"

definition version_char :: "char \<Rightarrow> bool" where
  "version_char c = (is_digit c \<or> c = CHR ''.'')"

text \<open>Building blocks: \<open>A\s*B\<close>, \<open>(?:a|b|c)\<close>, \<open>[:\s]+\<close>, \<open>[^\n]+\<close> and the dotted quad
  \<open>\d{1,3}\.\d{1,3}\.\d{1,3}\.\d{1,3}\<close>.\<close>

fun words :: "string list \<Rightarrow> rx" where
  "words [] = Lit []"
| "words [w] = Lit w"
| "words (w # ws) = Seq (Lit w) (Seq (Rep is_space 0 None) (words ws))"

fun alts :: "rx list \<Rightarrow> rx" where
  "alts [] = Lit []"
| "alts [r] = r"
| "alts (r # rs) = Alt r (alts rs)"

definition sep :: rx where
  "sep = Rep colon_space 1 None"

definition to_eol :: rx where
  "to_eol = Rep not_newline 1 None"

definition octet :: rx where
  "octet = Rep is_digit 1 (Some 3)"

definition quad :: rx where
  "quad = Seq octet (Seq (Lit ''.'') (Seq octet (Seq (Lit ''.'')
            (Seq octet (Seq (Lit ''.'') octet)))))"

text \<open>The patterns, in the order of the source.\<close>

definition wind_farm_pattern :: pattern where
  "wind_farm_pattern =
     Pattern (Seq (alts [words [''Wind'', ''Farm''], Lit ''WF'', words [''Farm'', ''Name'']]) sep)
       to_eol"

definition turbine_number_pattern :: pattern where
  "turbine_number_pattern =
     Pattern (Seq (alts [words [''Turbine'', ''Number''], Lit ''WTG'', words [''Wind'', ''Turbine'']])
                (Rep colon_space_hash 0 None))
       (Rep upper_alnum_dash 1 None)"

definition turbine_type_pattern :: pattern where
  "turbine_type_pattern =
     Pattern (Seq (alts [words [''Turbine'', ''Type''], Lit ''Model'', Lit ''Type'']) sep) to_eol"

definition location_pattern :: pattern where
  "location_pattern =
     Pattern (Seq (alts [Lit ''Location'', Lit ''Site'', Lit ''Address'']) sep) to_eol"

definition site_address_pattern :: pattern where
  "site_address_pattern =
     Pattern (Seq (alts [words [''Site'', ''Address''], Lit ''Address'']) sep) to_eol"

definition service_life_year_pattern :: pattern where
  "service_life_year_pattern =
     Pattern (Seq (alts [words [''Service'', ''Life'', ''Year''], Lit ''SLY'', Lit ''Year'']) sep)
       (Rep is_digit 4 (Some 4))"

definition technicians_list_pattern :: pattern where
  "technicians_list_pattern =
     Pattern (Seq (alts [Lit ''Technician'', Lit ''Tech'']) (Rep colon_space 0 None))
       (Seq (Rep upper_letter 1 (Some 1)) (Seq (Rep lower_letter 1 None)
          (Seq (Rep is_space 1 None)
             (Seq (Rep upper_letter 1 (Some 1)) (Rep lower_letter 1 None)))))"

definition technicians_pattern :: pattern where
  "technicians_pattern =
     Pattern (Seq (alts [Lit ''Technician'', words [''Service'', ''Tech'']]) sep) to_eol"

definition service_manager_pattern :: pattern where
  "service_manager_pattern =
     Pattern (Seq (alts [words [''Service'', ''Manager''], Lit ''Manager'', Lit ''Supervisor'']) sep)
       to_eol"

definition commissioning_date_pattern :: pattern where
  "commissioning_date_pattern =
     Pattern (Seq (alts [words [''Commissioning'', ''Date''], words [''Commission'', ''Date'']]) sep)
       (Rep date_char 1 None)"

definition service_date_pattern :: pattern where
  "service_date_pattern =
     Pattern (Seq (alts [words [''Service'', ''Date''], words [''Inspection'', ''Date''],
                         Lit ''Date'']) sep)
       (Rep date_char 1 None)"

definition ddaus_mac_pattern :: pattern where
  "ddaus_mac_pattern =
     Pattern (Seq (alts [words [''MAC'', ''Address''], words [''DDAU'', ''MAC''], Lit ''MAC'']) sep)
       (Rep hex_colon 1 None)"

definition ip_address_pattern :: pattern where
  "ip_address_pattern =
     Pattern (Seq (alts [words [''IP'', ''Address''], Lit ''IP'']) sep) quad"

definition gateway_pattern :: pattern where
  "gateway_pattern =
     Pattern (Seq (alts [words [''Default'', ''Gateway''], Lit ''Gateway'']) sep) quad"

definition controller_type_pattern :: pattern where
  "controller_type_pattern =
     Pattern (Seq (alts [words [''Controller'', ''Type''], Lit ''Controller'']) sep) to_eol"

definition das_server_pattern :: pattern where
  "das_server_pattern =
     Pattern (Seq (alts [words [''DAS'', ''Server''], Lit ''Server'']) sep) to_eol"

definition serial_number_pattern :: pattern where
  "serial_number_pattern =
     Pattern (Seq (alts [words [''Serial'', ''Number''], Lit ''S/N'', Lit ''Serial'']) sep)
       (Rep upper_alnum_dash 1 None)"

definition firmware_version_pattern :: pattern where
  "firmware_version_pattern =
     Pattern (Seq (alts [words [''Firmware'', ''Version''], words [''FW'', ''Version''],
                         Lit ''Firmware'']) sep)
       (Rep version_char 1 None)"

definition name_pattern :: pattern where
  "name_pattern = Pattern (Seq (alts [Seq Bol (Lit ''Name''), Lit ''Name'']) sep) to_eol"

definition number_pattern :: pattern where
  "number_pattern = Pattern (Seq (alts [Seq Bol (Lit ''Number''), Lit ''Number'']) sep) to_eol"

text \<open>The local function \<open>find\<close> of \<open>parse_cms_report\<close> (its \<open>default\<close> is always \<open>None\<close>):
  group 1 of the first match, stripped. \<open>ic\<close> says whether the flags are \<open>re.IGNORECASE\<close>
  (the default of \<open>find\<close>) or \<open>re.MULTILINE\<close> alone (the two calls that pass it).\<close>

definition find :: "string \<Rightarrow> bool \<Rightarrow> pattern \<Rightarrow> string option" where
  "find text ic p =
     (case re_search ic p None text of
        Some (before, value) \<Rightarrow> Some (strip value)
      | None \<Rightarrow> None)"

text \<open>The local function \<open>find_all\<close>: the stripped groups that are not empty.\<close>

definition find_all :: "string \<Rightarrow> bool \<Rightarrow> pattern \<Rightarrow> string list" where
  "find_all text ic p = filter (\<lambda>m. m \<noteq> []) (map strip (re_findall ic p None text))"

text \<open>\<open>parse_cms_report\<close>; the flag \<open>debug\<close> only prints and is left out.\<close>

definition parse_cms_report :: "string \<Rightarrow> CmsReportData" where
  "parse_cms_report text =
     (let wind_farm0 = find text True wind_farm_pattern;
          turbine_number0 = find text True turbine_number_pattern;
          turbine_type0 = find text True turbine_type_pattern;
          location0 = find text True location_pattern;
          site_address = find text True site_address_pattern;
          service_life_year0 = find text True service_life_year_pattern;
          technicians_list = find_all text True technicians_list_pattern;
          technicians0 = (if technicians_list \<noteq> [] then Some (join '', '' technicians_list)
                          else find text True technicians_pattern);
          service_manager0 = find text True service_manager_pattern;
          commissioning_date0 = find text True commissioning_date_pattern;
          service_date0 = find text True service_date_pattern;
          ddaus_mac0 = find text True ddaus_mac_pattern;
          ip_address0 = find text True ip_address_pattern;
          gateway0 = find text True gateway_pattern;
          controller_type0 = find text True controller_type_pattern;
          das_server0 = find text True das_server_pattern;
          serial_number0 = find text True serial_number_pattern;
          firmware_version0 = find text True firmware_version_pattern;
          name_field = find text False name_pattern;
          turbine_number1 = (if truthy name_field \<and> \<not> truthy turbine_number0
                             then name_field else turbine_number0);
          number_field = find text False number_pattern;
          wind_farm1 = (if truthy number_field \<and> \<not> truthy wind_farm0
                        then number_field else wind_farm0)
      in \<lparr> wind_farm = py_or wind_farm1 number_field,
           turbine_number = py_or turbine_number1 name_field,
           turbine_type = turbine_type0,
           location = py_or location0 site_address,
           service_life_year = service_life_year0,
           technicians = technicians0,
           service_manager = service_manager0,
           commissioning_date = commissioning_date0,
           service_date = service_date0,
           ddaus_mac = ddaus_mac0,
           ip_address = ip_address0,
           turbine_ip = ip_address0,
           gateway = gateway0,
           controller_type = controller_type0,
           das_server = das_server0,
           serial_number = serial_number0,
           firmware_version = firmware_version0,
           raw_text = Some text \<rparr>)"

section \<open>Exceptions and the PDF library\<close>

text \<open>The exception classes of the repository, and \<open>KeyError\<close> and every other
  \<open>Exception\<close> that the library can raise; each carries \<open>str(e)\<close>.\<close>

datatype error =
    PdfLoadError string
  | SifFillError string
  | ConversionError string
  | KeyError string
  | OtherException string

fun str_of :: "error \<Rightarrow> string" where
  "str_of (PdfLoadError m) = m"
| "str_of (SifFillError m) = m"
| "str_of (ConversionError m) = m"
| "str_of (KeyError m) = m"
| "str_of (OtherException m) = m"

fun is_SifFillError :: "error \<Rightarrow> bool" where
  "is_SifFillError (SifFillError m) = True"
| "is_SifFillError e = False"

text \<open>What \<open>get_fields\<close> tells about one form field: the entries \<open>/FT\<close>, \<open>/V\<close> and \<open>/DV\<close>
  when it has them.\<close>

record field_data =
  FT :: "string option"
  V :: "string option"
  DV :: "string option"

type_synonym form_fields = "(string, field_data) pydict"

text \<open>
  The library \<open>pypdf\<close> is outside the repository. It is a parameter of the model: a
  record of the operations that the source calls, over types \<open>'b\<close> of file contents,
  \<open>'r\<close> of readers, \<open>'w\<close> of writers and \<open>'p\<close> of pages. An operation returns \<open>Inl e\<close>
  where the library raises \<open>e\<close>. \<open>update_field\<close> is
  \<open>writer.update_page_form_field_values(writer.pages, {name: value})\<close>; it returns the
  exception it raised, if any, and the writer as the call left it.
\<close>

record ('b, 'r, 'w, 'p) pypdf =
  PdfReader :: "'b \<Rightarrow> error + 'r"
  reader_pages :: "'r \<Rightarrow> error + 'p list"
  extract_text :: "'p \<Rightarrow> error + string option"
  reader_get_fields :: "'r \<Rightarrow> error + form_fields option"
  clone_document_from_reader :: "'r \<Rightarrow> error + 'w"
  writer_get_fields :: "'w \<Rightarrow> error + form_fields option"
  update_field :: "'w \<Rightarrow> string \<Rightarrow> string \<Rightarrow> error option \<times> 'w"
  writer_write :: "'w \<Rightarrow> error + 'b"

text \<open>Sequencing of a step that may raise.\<close>

definition bind :: "error + 'a \<Rightarrow> ('a \<Rightarrow> error + 'c) \<Rightarrow> error + 'c" where
  "bind m f = (case m of Inl e \<Rightarrow> Inl e | Inr x \<Rightarrow> f x)"

section \<open>pdf\_loader.py\<close>

text \<open>The loop over the pages of \<open>extract_pdf_text\<close>: a page whose extraction raises
  gives the empty text, as does one for which \<open>extract_text\<close> returns \<open>None\<close>.\<close>

definition page_chunk :: "('b, 'r, 'w, 'p) pypdf \<Rightarrow> 'p \<Rightarrow> string" where
  "page_chunk lib page =
     (case extract_text lib page of
        Inl e \<Rightarrow> []
      | Inr None \<Rightarrow> []
      | Inr (Some text) \<Rightarrow> text)"

definition extract_pdf_text :: "('b, 'r, 'w, 'p) pypdf \<Rightarrow> 'b \<Rightarrow> error + (string \<times> bool)" where
  "extract_pdf_text lib pdf_bytes =
     (case bind (PdfReader lib pdf_bytes) (reader_pages lib) of
        Inl e \<Rightarrow> Inl (PdfLoadError (''Failed to read PDF: '' @ str_of e))
      | Inr pages \<Rightarrow>
          (let text_chunks = map (page_chunk lib) pages;
               full_text = join [CHR 0x0A] text_chunks;
               stripped_text = strip full_text;
               needs_ocr = (length stripped_text < 100)
           in Inr (full_text, needs_ocr)))"

text \<open>\<open>get_form_fields\<close>: the table of field name to type, value and default; the empty
  table when the document has no fields, and also when the library raises.\<close>

record field_info =
  info_type :: string
  info_value :: string
  info_default :: string

definition field_info_of :: "field_data \<Rightarrow> field_info" where
  "field_info_of d =
     \<lparr> info_type = (case FT d of Some t \<Rightarrow> t | None \<Rightarrow> ''Unknown''),
       info_value = (case V d of Some v \<Rightarrow> v | None \<Rightarrow> []),
       info_default = (case DV d of Some v \<Rightarrow> v | None \<Rightarrow> []) \<rparr>"

definition get_form_fields :: "('b, 'r, 'w, 'p) pypdf \<Rightarrow> 'b \<Rightarrow> (string, field_info) pydict" where
  "get_form_fields lib pdf_bytes =
     (case bind (PdfReader lib pdf_bytes) (reader_get_fields lib) of
        Inl e \<Rightarrow> []
      | Inr None \<Rightarrow> []
      | Inr (Some fs) \<Rightarrow> fold (\<lambda>(name, d) fields. dict_set fields name (field_info_of d)) fs [])"

text \<open>\<open>extract_text_with_ocr\<close> is a placeholder that returns a fixed message.\<close>

definition extract_text_with_ocr :: "'b \<Rightarrow> string" where
  "extract_text_with_ocr pdf_bytes = ''[OCR not yet implemented - text-based PDFs only]''"

section \<open>sif\_filler.py\<close>

text \<open>The loop of \<open>cms_to_sif_field_values\<close> over \<open>mapping.items()\<close>.\<close>

fun project_loop ::
  "(string, string) pydict \<Rightarrow> (string, string) pydict \<Rightarrow> (string, string) pydict
     \<Rightarrow> (string, string) pydict" where
  "project_loop cms_dict [] sif_values = sif_values"
| "project_loop cms_dict ((cms_field, sif_field) # rest) sif_values =
     (let value = dict_get cms_dict cms_field in
      if truthy value then project_loop cms_dict rest (dict_set sif_values sif_field (py_str value))
      else project_loop cms_dict rest sif_values)"

definition cms_to_sif_field_values ::
  "CmsReportData \<Rightarrow> (string, string) pydict option \<Rightarrow> (string, string) pydict" where
  "cms_to_sif_field_values cms custom_mapping =
     (let mapping = (case custom_mapping of Some m \<Rightarrow> m | None \<Rightarrow> CMS_TO_SIF_MAP)
      in project_loop (to_dict cms) mapping [])"

text \<open>\<open>sorted(xs)\<close> on strings: by code points, a proper prefix first.\<close>

definition py_sorted :: "string list \<Rightarrow> string list" where
  "py_sorted xs = sort_key (map code_point) xs"

text \<open>What \<open>fill_sif_form\<close> prints for a field that it could not set.\<close>

datatype warning = FieldNotFound string | CouldNotSet string string

text \<open>The loop of \<open>fill_sif_form\<close> over \<open>field_values.items()\<close>: each field is set in a
  \<open>try\<close> of its own, and an exception becomes a printed warning.\<close>

fun fill_loop ::
  "('b, 'r, 'w, 'p) pypdf \<Rightarrow> 'w \<Rightarrow> (string, string) pydict \<Rightarrow> warning list
     \<Rightarrow> 'w \<times> warning list" where
  "fill_loop lib writer [] printed = (writer, printed)"
| "fill_loop lib writer ((field_name, value) # rest) printed =
     (case update_field lib writer field_name value of
        (None, writer') \<Rightarrow> fill_loop lib writer' rest printed
      | (Some (KeyError m), writer') \<Rightarrow>
          fill_loop lib writer' rest (printed @ [FieldNotFound field_name])
      | (Some e, writer') \<Rightarrow>
          fill_loop lib writer' rest (printed @ [CouldNotSet field_name (str_of e)]))"

text \<open>The body of the \<open>try\<close> of \<open>fill_sif_form\<close>. The flag \<open>flatten\<close> does nothing in the
  source and is left out.\<close>

definition fill_sif_form_body ::
  "('b, 'r, 'w, 'p) pypdf \<Rightarrow> 'b \<Rightarrow> (string, string) pydict \<Rightarrow> error + ('b \<times> warning list)" where
  "fill_sif_form_body lib sif_template_bytes field_values =
     bind (PdfReader lib sif_template_bytes) (\<lambda>reader.
     bind (clone_document_from_reader lib reader) (\<lambda>writer.
     bind (writer_get_fields lib writer) (\<lambda>fields.
       (case fields of
          None \<Rightarrow> Inl (SifFillError ''SIF template does not contain form fields (AcroForm)'')
        | Some fs \<Rightarrow>
            (case fill_loop lib writer field_values [] of
               (writer', printed) \<Rightarrow>
                 bind (writer_write lib writer') (\<lambda>output. Inr (output, printed)))))))"

text \<open>\<open>fill_sif_form\<close>: the filled document and what was printed, or the exception
  raised. A \<open>SifFillError\<close> passes, any other exception is wrapped into one.\<close>

definition fill_sif_form ::
  "('b, 'r, 'w, 'p) pypdf \<Rightarrow> 'b \<Rightarrow> (string, string) pydict \<Rightarrow> error + ('b \<times> warning list)" where
  "fill_sif_form lib sif_template_bytes field_values =
     (case fill_sif_form_body lib sif_template_bytes field_values of
        Inl (SifFillError m) \<Rightarrow> Inl (SifFillError m)
      | Inl e \<Rightarrow> Inl (SifFillError (''Failed to fill SIF form: '' @ str_of e))
      | Inr r \<Rightarrow> Inr r)"

definition get_unfilled_fields ::
  "('b, 'r, 'w, 'p) pypdf \<Rightarrow> 'b \<Rightarrow> (string, string) pydict \<Rightarrow> string list" where
  "get_unfilled_fields lib sif_template_bytes field_values =
     (case bind (PdfReader lib sif_template_bytes) (reader_get_fields lib) of
        Inl e \<Rightarrow> []
      | Inr None \<Rightarrow> []
      | Inr (Some fs) \<Rightarrow>
          py_sorted (remdups (filter (\<lambda>n. n \<notin> set (map fst field_values)) (map fst fs))))"

text \<open>The report. A coverage is \<open>"N/A"\<close> or the percentage of \<open>mapped\<close> in \<open>total\<close>, kept
  here as the two numbers: the rendering of the floating-point quotient with one
  decimal is not modelled.\<close>

datatype coverage = NA | Percent nat nat

record mapping_report =
  cms_total_fields :: nat
  cms_extracted_fields :: "string list"
  sif_total_fields :: nat
  sif_field_names :: "string list"
  total_mappings :: nat
  successfully_mapped :: nat
  mapping_details :: "(string, string) pydict"
  unmapped_cms_fields :: "string list"
  unfilled_sif_fields :: "string list"
  cms_coverage :: coverage
  sif_coverage :: coverage

text \<open>The dictionary that \<open>get_mapping_report\<close> returns: the statistic groups, or the one
  key \<open>"error"\<close>.\<close>

datatype report = Report mapping_report | ErrorReport string

definition get_mapping_report_body ::
  "('b, 'r, 'w, 'p) pypdf \<Rightarrow> CmsReportData \<Rightarrow> 'b \<Rightarrow> (string, string) pydict option
     \<Rightarrow> error + mapping_report" where
  "get_mapping_report_body lib cms sif_template_bytes custom_mapping =
     (let cms_fields = to_dict cms in
      bind (PdfReader lib sif_template_bytes) (\<lambda>reader.
      bind (reader_get_fields lib reader) (\<lambda>fields.
        (let sif_fields = (case fields of None \<Rightarrow> [] | Some fs \<Rightarrow> fs);
             sif_values = cms_to_sif_field_values cms custom_mapping;
             total_cms_fields = length cms_fields;
             total_sif_fields = length sif_fields;
             mapped_fields = length sif_values;
             mapping = (case custom_mapping of Some m \<Rightarrow> m | None \<Rightarrow> CMS_TO_SIF_MAP);
             unmapped_cms = filter (\<lambda>field. field \<notin> set (map fst mapping)) (map fst cms_fields);
             unfilled_sif = get_unfilled_fields lib sif_template_bytes sif_values
         in Inr \<lparr> cms_total_fields = total_cms_fields,
                  cms_extracted_fields = map fst cms_fields,
                  sif_total_fields = total_sif_fields,
                  sif_field_names = map fst sif_fields,
                  total_mappings = length mapping,
                  successfully_mapped = mapped_fields,
                  mapping_details = sif_values,
                  unmapped_cms_fields = unmapped_cms,
                  unfilled_sif_fields = unfilled_sif,
                  cms_coverage = (if total_cms_fields > 0
                                  then Percent mapped_fields total_cms_fields else NA),
                  sif_coverage = (if total_sif_fields > 0
                                  then Percent mapped_fields total_sif_fields else NA) \<rparr>))))"

text \<open>\<open>get_mapping_report\<close>: the whole body stands in one \<open>try\<close> whose handler returns
  the dictionary with the key \<open>"error"\<close>. The result is \<open>Inl e\<close> where the function would
  raise \<open>e\<close>.\<close>

definition get_mapping_report ::
  "('b, 'r, 'w, 'p) pypdf \<Rightarrow> CmsReportData \<Rightarrow> 'b \<Rightarrow> (string, string) pydict option
     \<Rightarrow> error + report" where
  "get_mapping_report lib cms sif_template_bytes custom_mapping =
     (case get_mapping_report_body lib cms sif_template_bytes custom_mapping of
        Inr r \<Rightarrow> Inr (Report r)
      | Inl e \<Rightarrow> Inr (ErrorReport (''Could not generate mapping report: '' @ str_of e)))"

text \<open>\<open>create_filled_sif\<close>. With \<open>debug\<close> it prints from the statistic groups of the
  report, which raises \<open>KeyError\<close> on a report that has only the key \<open>"error"\<close>.\<close>

definition create_filled_sif ::
  "('b, 'r, 'w, 'p) pypdf \<Rightarrow> CmsReportData \<Rightarrow> 'b \<Rightarrow> (string, string) pydict option \<Rightarrow> bool
     \<Rightarrow> error + ('b \<times> report)" where
  "create_filled_sif lib cms sif_template_bytes custom_mapping debug =
     (let sif_values = cms_to_sif_field_values cms custom_mapping in
      bind (fill_sif_form lib sif_template_bytes sif_values) (\<lambda>(filled_pdf, printed).
      bind (get_mapping_report lib cms sif_template_bytes custom_mapping) (\<lambda>report.
        (case report of
           ErrorReport m \<Rightarrow>
             (if debug then Inl (KeyError (CHR 0x27 # ''cms_extraction'' @ [CHR 0x27]))
              else Inr (filled_pdf, report))
         | Report r \<Rightarrow> Inr (filled_pdf, report)))))"

section \<open>main.py: the conversion workflow\<close>

definition process_cms_report :: "('b, 'r, 'w, 'p) pypdf \<Rightarrow> 'b \<Rightarrow> error + CmsReportData" where
  "process_cms_report lib cms_pdf_bytes =
     (case extract_pdf_text lib cms_pdf_bytes of
        Inl (PdfLoadError m) \<Rightarrow> Inl (ConversionError (''Failed to load CMS PDF: '' @ m))
      | Inl e \<Rightarrow> Inl (ConversionError (''Failed to process CMS report: '' @ str_of e))
      | Inr (text0, needs_ocr) \<Rightarrow>
          (let text =
             (if needs_ocr then
                (let ocr_text = extract_text_with_ocr cms_pdf_bytes in
                 if ocr_text \<noteq> [] \<and> \<not> prefix ''[OCR not yet implemented'' ocr_text
                 then ocr_text else text0)
              else text0)
           in Inr (parse_cms_report text)))"

definition create_sif_from_cms ::
  "('b, 'r, 'w, 'p) pypdf \<Rightarrow> CmsReportData \<Rightarrow> 'b \<Rightarrow> (string, string) pydict option \<Rightarrow> bool
     \<Rightarrow> error + ('b \<times> report)" where
  "create_sif_from_cms lib cms_data sif_template_bytes custom_mapping debug =
     (case create_filled_sif lib cms_data sif_template_bytes custom_mapping debug of
        Inl (SifFillError m) \<Rightarrow> Inl (ConversionError (''Failed to fill SIF template: '' @ m))
      | Inl e \<Rightarrow> Inl (ConversionError (''Failed to generate SIF: '' @ str_of e))
      | Inr r \<Rightarrow> Inr r)"

text \<open>\<open>convert_cms_to_sif\<close>: step 1 processes the report, step 2 creates the filled form.\<close>

definition convert_cms_to_sif ::
  "('b, 'r, 'w, 'p) pypdf \<Rightarrow> 'b \<Rightarrow> 'b \<Rightarrow> (string, string) pydict option \<Rightarrow> bool
     \<Rightarrow> error + ('b \<times> report)" where
  "convert_cms_to_sif lib cms_pdf_bytes sif_template_bytes custom_mapping debug =
     bind (process_cms_report lib cms_pdf_bytes) (\<lambda>cms_data.
       create_sif_from_cms lib cms_data sif_template_bytes custom_mapping debug)"

section \<open>main\_script.py: the extraction handler of the page\<close>

text \<open>\<open>datetime.now()\<close> is a parameter; \<open>strftime_mdY\<close> is \<open>strftime('%m/%d/%Y')\<close>, with the
  month and the day in two digits and the year (from 1000 on) in four.\<close>

record date =
  year :: nat
  month :: nat
  day :: nat

definition digit_char :: "nat \<Rightarrow> char" where
  "digit_char n = char_of (48 + n mod 10)"

definition strftime_mdY :: "date \<Rightarrow> string" where
  "strftime_mdY d =
     [digit_char (month d div 10), digit_char (month d), CHR ''/'',
      digit_char (day d div 10), digit_char (day d), CHR ''/'',
      digit_char (year d div 1000), digit_char (year d div 100),
      digit_char (year d div 10), digit_char (year d)]"

text \<open>The record that \<open>extract_cms\<close> stores in \<open>extracted_cms_data\<close>, from the text that the
  recognition of the page returned: the parsed report, with the current date as the
  service date when parsing found none.\<close>

definition extract_cms :: "date \<Rightarrow> string \<Rightarrow> CmsReportData" where
  "extract_cms now ocr_text =
     (let extracted_cms_data = parse_cms_report ocr_text in
      if \<not> truthy (service_date extracted_cms_data)
      then extracted_cms_data\<lparr>service_date := Some (strftime_mdY now)\<rparr>
      else extracted_cms_data)"

section \<open>A small PDF library for the examples\<close>

text \<open>An in-memory stand-in for the library, used where a statement is tried on a
  concrete document: a document is its page texts and its form fields, file contents
  that are no document are \<open>None\<close>, and setting a field that the form lacks raises
  \<open>KeyError\<close>.\<close>

record mem_pdf =
  mem_pages :: "string option list"
  mem_fields :: "form_fields option"

definition mem_update :: "mem_pdf \<Rightarrow> string \<Rightarrow> string \<Rightarrow> error option \<times> mem_pdf" where
  "mem_update w name value =
     (case mem_fields w of
        None \<Rightarrow> (Some (KeyError name), w)
      | Some fs \<Rightarrow>
          (if name \<in> set (map fst fs)
           then (None, w\<lparr>mem_fields :=
                   Some (map (\<lambda>(n, d). if n = name then (n, d\<lparr>V := Some value\<rparr>) else (n, d)) fs)\<rparr>)
           else (Some (KeyError name), w)))"

definition mem_lib :: "(mem_pdf option, mem_pdf, mem_pdf, string option) pypdf" where
  "mem_lib =
     \<lparr> PdfReader = (\<lambda>b. case b of None \<Rightarrow> Inl (OtherException ''not a PDF'') | Some d \<Rightarrow> Inr d),
       reader_pages = (\<lambda>r. Inr (mem_pages r)),
       extract_text = (\<lambda>p. Inr p),
       reader_get_fields = (\<lambda>r. Inr (mem_fields r)),
       clone_document_from_reader = (\<lambda>r. Inr r),
       writer_get_fields = (\<lambda>w. Inr (mem_fields w)),
       update_field = mem_update,
       writer_write = (\<lambda>w. Inr (Some w)) \<rparr>"

text \<open>A text field without a value.\<close>

definition blank_field :: field_data where
  "blank_field = \<lparr>FT = Some ''/Tx'', V = None, DV = None\<rparr>"

text \<open>A report of one page and a template with two text fields.\<close>

definition report_pdf :: "mem_pdf option" where
  "report_pdf = Some \<lparr>mem_pages = [Some ''Name: T-004''], mem_fields = None\<rparr>"

definition template_pdf :: "mem_pdf option" where
  "template_pdf =
     Some \<lparr>mem_pages = [],
           mem_fields = Some [(''Date'', blank_field), (''Wind turbine number'', blank_field)]\<rparr>"

section \<open>Specification-side notions\<close>

text \<open>The shapes of claim C3. \<open>split_on\<close> is \<open>str.split\<close> with a separator. A dotted quad is
  four groups of one to three digits separated by dots; a colon-hex value is a
  non-empty string of hexadecimal digits and colons.\<close>

fun split_on :: "char \<Rightarrow> string \<Rightarrow> string list" where
  "split_on d [] = [[]]"
| "split_on d (c # cs) =
     (if c = d then [] # split_on d cs
      else (case split_on d cs of [] \<Rightarrow> [[c]] | g # gs \<Rightarrow> (c # g) # gs))"





text \<open>The generic patterns as the specification words them, anchored at the start of a
  line (\<open>^Name[:\s]+([^\n]+)\<close>), and the same without the anchor.\<close>

definition unanchored_pattern :: "string \<Rightarrow> pattern" where
  "unanchored_pattern w = Pattern (Seq (Lit w) sep) to_eol"

definition line_anchored_pattern :: "string \<Rightarrow> pattern" where
  "line_anchored_pattern w = Pattern (Seq (Seq Bol (Lit w)) sep) to_eol"

text \<open>The format \<open>MM/DD/YYYY\<close>: two digits, a slash, two digits, a slash, four digits.\<close>

definition mdY_shape :: "string \<Rightarrow> bool" where
  "mdY_shape s =
     (case s of
        [m1, m2, s1, d1, d2, s2, y1, y2, y3, y4] \<Rightarrow>
          list_all is_digit [m1, m2, d1, d2, y1, y2, y3, y4] \<and> s1 = CHR ''/'' \<and> s2 = CHR ''/''
      | _ \<Rightarrow> False)"

text \<open>The mapping in effect: the custom mapping when one is given, else the default.\<close>

definition effective_mapping :: "(string, string) pydict option \<Rightarrow> (string, string) pydict" where
  "effective_mapping custom_mapping = (case custom_mapping of Some m \<Rightarrow> m | None \<Rightarrow> CMS_TO_SIF_MAP)"

text \<open>The report that the handler of \<open>get_mapping_report\<close> builds from an exception.\<close>

definition error_report_of :: "error \<Rightarrow> report" where
  "error_report_of e = ErrorReport (''Could not generate mapping report: '' @ str_of e)"

text \<open>The mapping entries that contribute: the pairs (target field, value) of the entries
  whose attribute is in the dictionary view with a non-empty value, in mapping order.\<close>

fun contributions ::
  "(string, string) pydict \<Rightarrow> (string, string) pydict \<Rightarrow> (string \<times> string) list" where
  "contributions cms_dict [] = []"
| "contributions cms_dict ((a, t) # rest) =
     (case dict_get cms_dict a of
        None \<Rightarrow> contributions cms_dict rest
      | Some v \<Rightarrow> (if v = [] then contributions cms_dict rest
                  else (t, v) # contributions cms_dict rest))"

section \<open>Properties of the dictionaries\<close>

lemma map_of_dict_set: "map_of (dict_set d k v) = (map_of d)(k \<mapsto> v)"
  by (induction d) (auto simp: fun_eq_iff)

lemma keys_dict_set: "fst ` set (dict_set d k v) = insert k (fst ` set d)"
  by (induction d) force+

lemma distinct_dict_set:
  "distinct (map fst d) \<Longrightarrow> distinct (map fst (dict_set d k v))"
  by (induction d) (auto simp: keys_dict_set)

lemma project_loop_map_of:
  "map_of (project_loop cd m acc) = map_of (rev (contributions cd m) @ acc)"
proof (induction m arbitrary: acc)
  case Nil
  show ?case by simp
next
  case (Cons e m)
  obtain a t where e: "e = (a, t)" by (cases e)
  show ?case
  proof (cases "dict_get cd a")
    case None
    with Cons e show ?thesis by simp
  next
    case (Some v)
    show ?thesis
    proof (cases "v = []")
      case True
      with Cons e Some show ?thesis by simp
    next
      case False
      have "map_of (project_loop cd (e # m) acc)
              = map_of (rev (contributions cd m) @ dict_set acc t v)"
        using Cons e Some False by simp
      also have "\<dots> = map_of (rev (contributions cd m) @ (t, v) # acc)"
        by (simp add: map_of_dict_set fun_eq_iff map_add_def split: option.splits)
      finally show ?thesis using e Some False by simp
    qed
  qed
qed

lemma project_loop_distinct:
  "distinct (map fst acc) \<Longrightarrow> distinct (map fst (project_loop cd m acc))"
proof (induction m arbitrary: acc)
  case Nil
  then show ?case by simp
next
  case (Cons e m)
  obtain a t where e: "e = (a, t)" by (cases e)
  show ?case using Cons e by (simp add: Let_def distinct_dict_set)
qed

section \<open>The dictionary view of a record\<close>

lemma instance_dict_keys: "map fst (instance_dict c) = CmsReportData_attributes"
  by (simp add: instance_dict_def CmsReportData_attributes_def)

lemma to_dict_items_keys: "fst ` set (to_dict_items kvs) \<subseteq> fst ` set kvs - {''raw_text''}"
  by (induction kvs rule: to_dict_items.induct) auto

lemma to_dict_items_append:
  "to_dict_items (xs @ ys) = to_dict_items xs @ to_dict_items ys"
  by (induction xs rule: to_dict_items.induct) simp_all

lemma to_dict_items_raw_text: "to_dict_items [(''raw_text'', v)] = []"
  by (cases v) simp_all

lemma instance_dict_split:
  "instance_dict c = butlast (instance_dict c) @ [(''raw_text'', raw_text c)]"
  by (simp add: instance_dict_def)

lemma to_dict_butlast: "to_dict c = to_dict_items (butlast (instance_dict c))"
proof -
  have "to_dict c = to_dict_items (butlast (instance_dict c) @ [(''raw_text'', raw_text c)])"
    unfolding to_dict_def using instance_dict_split[of c] by simp
  then show ?thesis
    by (simp only: to_dict_items_append to_dict_items_raw_text append_Nil2)
qed

lemma to_dict_raw_text_update: "to_dict (c\<lparr>raw_text := x\<rparr>) = to_dict c"
  by (simp add: to_dict_butlast) (simp add: instance_dict_def)

section \<open>The keys of the default mapping\<close>

text \<open>
  Claim C1 says that every key of \<open>CMS_TO_SIF_MAP\<close> names a declared attribute of
  \<open>CmsReportData\<close>. The keys of the table that name no attribute of the record are
  computed here: they are the six keys of its last group, so the table does not have
  the property.
\<close>

theorem CMS_TO_SIF_MAP_keys_outside_record:
  "filter (\<lambda>k. k \<notin> set CmsReportData_attributes) (map fst CMS_TO_SIF_MAP) =
     [''gearbox_info'', ''generator_info'', ''main_bearing_info'', ''hub_height'', ''owner'',
      ''service_car'']"
  by (simp add: CMS_TO_SIF_MAP_def CmsReportData_attributes_def)

section \<open>The full text stays out of every view\<close>

text \<open>
  Claim C6: for every record, \<open>raw_text\<close> is no key of the dictionary view \<open>to_dict\<close> and
  looking it up there gives nothing; the dictionary view and the value projection do
  not depend on the content of \<open>raw_text\<close>, whatever the mapping; and a custom
  mapping with the key \<open>raw_text\<close> projects nothing from it.
\<close>

theorem raw_text_never_projected:
  "''raw_text'' \<notin> fst ` set (to_dict cms)
   \<and> dict_get (to_dict cms) ''raw_text'' = None
   \<and> to_dict (cms\<lparr>raw_text := x\<rparr>) = to_dict cms
   \<and> cms_to_sif_field_values (cms\<lparr>raw_text := x\<rparr>) custom_mapping
       = cms_to_sif_field_values cms custom_mapping
   \<and> cms_to_sif_field_values cms (Some [(''raw_text'', target)]) = []"
proof -
  have 1: "''raw_text'' \<notin> fst ` set (to_dict cms)"
    using to_dict_items_keys[of "instance_dict cms"] by (auto simp: to_dict_def)
  then have 2: "dict_get (to_dict cms) ''raw_text'' = None"
    by (simp add: dict_get_def map_of_eq_None_iff)
  have 3: "to_dict (cms\<lparr>raw_text := x\<rparr>) = to_dict cms" by (rule to_dict_raw_text_update)
  have 4: "cms_to_sif_field_values (cms\<lparr>raw_text := x\<rparr>) custom_mapping
       = cms_to_sif_field_values cms custom_mapping"
    by (simp add: cms_to_sif_field_values_def 3)
  have 5: "cms_to_sif_field_values cms (Some [(''raw_text'', target)]) = []"
    using 2 by (simp add: cms_to_sif_field_values_def)
  show ?thesis using 1 2 3 4 5 by blast
qed

section \<open>The unit IP address\<close>

text \<open>
  Claim C10: for every input text, the record that the extraction engine returns has
  \<open>turbine_ip\<close> equal to \<open>ip_address\<close>; both are the result of the one search for the
  IP-address pattern.
\<close>

theorem turbine_ip_copies_ip_address:
  "turbine_ip (parse_cms_report text) = ip_address (parse_cms_report text)
   \<and> ip_address (parse_cms_report text) = find text True ip_address_pattern"
  by (simp add: parse_cms_report_def Let_def)

section \<open>The value projection\<close>

lemma contributions_nonempty: "(t, v) \<in> set (contributions cd m) \<Longrightarrow> v \<noteq> []"
  by (induction cd m rule: contributions.induct) (auto split: option.splits if_splits)

lemma contributions_from_mapping:
  "(t, v) \<in> set (contributions cd m) \<Longrightarrow> \<exists>a. (a, t) \<in> set m \<and> dict_get cd a = Some v"
  by (induction cd m rule: contributions.induct) (auto split: option.splits if_splits)

lemma contributions_complete:
  "(a, t) \<in> set m \<Longrightarrow> dict_get cd a = Some v \<Longrightarrow> v \<noteq> [] \<Longrightarrow> (t, v) \<in> set (contributions cd m)"
  by (induction cd m rule: contributions.induct) (auto split: option.splits if_splits)

lemma project_loop_set:
  assumes "distinct (map fst (contributions cd m))"
  shows "set (project_loop cd m []) = set (contributions cd m)"
proof -
  have d: "distinct (map fst (project_loop cd m []))"
    by (rule project_loop_distinct) simp
  have m: "map_of (project_loop cd m []) = map_of (rev (contributions cd m))"
    using project_loop_map_of[of cd m "[]"] by simp
  have d2: "distinct (map fst (rev (contributions cd m)))"
    using assms by (simp add: rev_map[symmetric])
  have "set (project_loop cd m []) = set (rev (contributions cd m))"
    using d d2 m by (metis map_of_inject_set)
  then show ?thesis by simp
qed

text \<open>
  Claim C5 as stated fails where two entries of the mapping share a target field: the
  projection is a dictionary, so the later entry overwrites the earlier one and the
  pair of the earlier entry is not in the result.
\<close>

theorem projection_collision_counterexample:
  "(''X'', ''A'') \<in> set (contributions
        (to_dict (CmsReportData_defaults\<lparr>wind_farm := Some ''A'', location := Some ''B''\<rparr>))
        [(''wind_farm'', ''X''), (''location'', ''X'')])
   \<and> (''X'', ''A'') \<notin> set (cms_to_sif_field_values
        (CmsReportData_defaults\<lparr>wind_farm := Some ''A'', location := Some ''B''\<rparr>)
        (Some [(''wind_farm'', ''X''), (''location'', ''X'')]))
   \<and> cms_to_sif_field_values
        (CmsReportData_defaults\<lparr>wind_farm := Some ''A'', location := Some ''B''\<rparr>)
        (Some [(''wind_farm'', ''X''), (''location'', ''X'')]) = [(''X'', ''B'')]"
  by (simp add: cms_to_sif_field_values_def to_dict_def instance_dict_def CmsReportData_defaults_def
      dict_get_def)


text \<open>
  Claim C5, amended. For every record and every mapping (the default mapping when none
  is given), with \<open>contributions\<close> the pairs (target field, attribute value) of the
  mapping entries whose attribute is in the dictionary view of the record (every
  attribute but \<open>raw_text\<close>) with a non-empty value:
  the projection gives each target field the value of the last such entry for it;
  its keys are distinct; when the targets of these entries are distinct it contains
  exactly these pairs; every pair of it has a non-empty value, which is the unchanged
  attribute value of a mapping entry with that target; and the empty mapping gives the
  empty projection. The function is total: it has no error result.
\<close>

theorem projection_last_writer_wins:
  "map_of (cms_to_sif_field_values cms custom_mapping)
     = map_of (rev (contributions (to_dict cms) (effective_mapping custom_mapping)))
   \<and> distinct (map fst (cms_to_sif_field_values cms custom_mapping))
   \<and> (distinct (map fst (contributions (to_dict cms) (effective_mapping custom_mapping)))
        \<longrightarrow> set (cms_to_sif_field_values cms custom_mapping)
              = set (contributions (to_dict cms) (effective_mapping custom_mapping)))
   \<and> (\<forall>t v. (t, v) \<in> set (cms_to_sif_field_values cms custom_mapping)
        \<longrightarrow> v \<noteq> [] \<and> (\<exists>a. (a, t) \<in> set (effective_mapping custom_mapping)
                          \<and> dict_get (to_dict cms) a = Some v))
   \<and> cms_to_sif_field_values cms (Some []) = []"
proof -
  let ?m = "effective_mapping custom_mapping"
  let ?cd = "to_dict cms"
  have eq: "cms_to_sif_field_values cms custom_mapping = project_loop ?cd ?m []"
    by (simp add: cms_to_sif_field_values_def effective_mapping_def)
  have 1: "map_of (project_loop ?cd ?m []) = map_of (rev (contributions ?cd ?m))"
    using project_loop_map_of[of ?cd ?m "[]"] by simp
  have 2: "distinct (map fst (project_loop ?cd ?m []))"
    by (rule project_loop_distinct) simp
  have 3: "distinct (map fst (contributions ?cd ?m))
        \<longrightarrow> set (project_loop ?cd ?m []) = set (contributions ?cd ?m)"
    using project_loop_set by blast
  have 4: "\<forall>t v. (t, v) \<in> set (project_loop ?cd ?m [])
        \<longrightarrow> v \<noteq> [] \<and> (\<exists>a. (a, t) \<in> set ?m \<and> dict_get ?cd a = Some v)"
  proof (intro allI impI)
    fix t v assume "(t, v) \<in> set (project_loop ?cd ?m [])"
    then have "map_of (project_loop ?cd ?m []) t = Some v" using 2 by simp
    then have "map_of (rev (contributions ?cd ?m)) t = Some v" using 1 by simp
    then have "(t, v) \<in> set (contributions ?cd ?m)" by (auto dest: map_of_SomeD)
    then show "v \<noteq> [] \<and> (\<exists>a. (a, t) \<in> set ?m \<and> dict_get ?cd a = Some v)"
      using contributions_nonempty contributions_from_mapping by blast
  qed
  have 5: "cms_to_sif_field_values cms (Some []) = []"
    by (simp add: cms_to_sif_field_values_def)
  show ?thesis unfolding eq using 1 2 3 4 5 by blast
qed


theorem projection_last_writer_wins_witness:
  "distinct (map fst (contributions
        (to_dict (CmsReportData_defaults\<lparr>wind_farm := Some ''A'', location := Some [], raw_text := Some ''t''\<rparr>))
        (effective_mapping (Some [(''wind_farm'', ''X''), (''location'', ''Y''), (''raw_text'', ''Z'')]))))
   \<and> set (cms_to_sif_field_values
        (CmsReportData_defaults\<lparr>wind_farm := Some ''A'', location := Some [], raw_text := Some ''t''\<rparr>)
        (Some [(''wind_farm'', ''X''), (''location'', ''Y''), (''raw_text'', ''Z'')])) = {(''X'', ''A'')}"
  using projection_last_writer_wins[of
        "CmsReportData_defaults\<lparr>wind_farm := Some ''A'', location := Some [], raw_text := Some ''t''\<rparr>"
        "Some [(''wind_farm'', ''X''), (''location'', ''Y''), (''raw_text'', ''Z'')]"]
  by (simp add: effective_mapping_def to_dict_def instance_dict_def CmsReportData_defaults_def
      dict_get_def)


section \<open>The OCR trigger\<close>

text \<open>
  Claim C9: whenever \<open>extract_pdf_text\<close> returns, the flag it returns with the text is
  true exactly when the stripped text has fewer than 100 characters. The examples
  are a document of exactly 100 characters (flag false) and one of 99 (flag true).
\<close>

theorem needs_ocr_threshold:
  assumes "extract_pdf_text lib pdf_bytes = Inr (full_text, needs_ocr)"
  shows "needs_ocr = (length (strip full_text) < 100)"
  using assms
  by (auto simp: extract_pdf_text_def Let_def split: sum.splits)


lemma strip_replicate_x: "strip (replicate n CHR ''x'') = replicate n CHR ''x''"
proof -
  have "\<not> is_space CHR ''x''" by (simp add: is_space_def code_point_def)
  then have "dropWhile is_space (replicate n CHR ''x'') = replicate n CHR ''x''"
    by (cases n) simp_all
  then show ?thesis by (simp add: strip_def)
qed


theorem needs_ocr_threshold_witness:
  "extract_pdf_text mem_lib (Some \<lparr>mem_pages = [Some (replicate 100 CHR ''x'')], mem_fields = None\<rparr>)
     = Inr (replicate 100 CHR ''x'', False)
   \<and> length (strip (replicate 100 CHR ''x'')) = 100
   \<and> extract_pdf_text mem_lib (Some \<lparr>mem_pages = [Some (replicate 99 CHR ''x'')], mem_fields = None\<rparr>)
     = Inr (replicate 99 CHR ''x'', True)
   \<and> length (strip (replicate 99 CHR ''x'')) = 99"
proof -
  have a: "extract_pdf_text mem_lib (Some \<lparr>mem_pages = [Some (replicate 100 CHR ''x'')], mem_fields = None\<rparr>)
     = Inr (replicate 100 CHR ''x'', False)"
    by (simp add: extract_pdf_text_def mem_lib_def bind_def page_chunk_def strip_replicate_x)
  have b: "extract_pdf_text mem_lib (Some \<lparr>mem_pages = [Some (replicate 99 CHR ''x'')], mem_fields = None\<rparr>)
     = Inr (replicate 99 CHR ''x'', True)"
    by (simp add: extract_pdf_text_def mem_lib_def bind_def page_chunk_def strip_replicate_x)
  show ?thesis
    using needs_ocr_threshold[OF a] needs_ocr_threshold[OF b] a b
    by (simp add: strip_replicate_x)
qed


section \<open>The mapping report\<close>

text \<open>
  Claim C8: \<open>get_mapping_report\<close> never raises, whatever the library does on the
  template: it always returns a report. When opening the template or reading its
  fields raises, the report is the one with only the error description; when both
  succeed, it is a report with the statistic groups.
\<close>

theorem get_mapping_report_never_raises:
  "(\<exists>r. get_mapping_report lib cms sif_template_bytes custom_mapping = Inr r)
   \<and> (\<forall>e. PdfReader lib sif_template_bytes = Inl e \<longrightarrow>
         get_mapping_report lib cms sif_template_bytes custom_mapping = Inr (error_report_of e))
   \<and> (\<forall>reader e. PdfReader lib sif_template_bytes = Inr reader
          \<and> reader_get_fields lib reader = Inl e \<longrightarrow>
         get_mapping_report lib cms sif_template_bytes custom_mapping = Inr (error_report_of e))
   \<and> (\<forall>reader fields. PdfReader lib sif_template_bytes = Inr reader
          \<and> reader_get_fields lib reader = Inr fields \<longrightarrow>
         (\<exists>stats. get_mapping_report lib cms sif_template_bytes custom_mapping = Inr (Report stats)))"
  by (auto simp: get_mapping_report_def get_mapping_report_body_def bind_def Let_def
      error_report_of_def split: sum.splits)


theorem get_mapping_report_never_raises_witness:
  "PdfReader mem_lib None = Inl (OtherException ''not a PDF'')
   \<and> get_mapping_report mem_lib CmsReportData_defaults None None
       = Inr (ErrorReport ''Could not generate mapping report: not a PDF'')
   \<and> PdfReader mem_lib (Some \<lparr>mem_pages = [], mem_fields = None\<rparr>)
       = Inr \<lparr>mem_pages = [], mem_fields = None\<rparr>
   \<and> reader_get_fields mem_lib \<lparr>mem_pages = [], mem_fields = None\<rparr> = Inr None
   \<and> (\<exists>stats. get_mapping_report mem_lib CmsReportData_defaults
          (Some \<lparr>mem_pages = [], mem_fields = None\<rparr>) None = Inr (Report stats))"
  using get_mapping_report_never_raises[of mem_lib CmsReportData_defaults None None]
    get_mapping_report_never_raises[of mem_lib CmsReportData_defaults
      "Some \<lparr>mem_pages = [], mem_fields = None\<rparr>" None]
  by (simp add: mem_lib_def error_report_of_def)


section \<open>Form filling\<close>

lemma fill_sif_form_body_fields:
  assumes "PdfReader lib tpl = Inr reader"
    and "clone_document_from_reader lib reader = Inr writer"
    and "writer_get_fields lib writer = Inr (Some fs)"
  shows "fill_sif_form_body lib tpl field_values =
           bind (writer_write lib (fst (fill_loop lib writer field_values [])))
             (\<lambda>out. Inr (out, snd (fill_loop lib writer field_values [])))"
  using assms by (auto simp: fill_sif_form_body_def bind_def split: prod.splits sum.splits)

lemma fill_sif_form_body_no_fields:
  assumes "PdfReader lib tpl = Inr reader"
    and "clone_document_from_reader lib reader = Inr writer"
    and "writer_get_fields lib writer = Inr None"
  shows "fill_sif_form_body lib tpl field_values =
           Inl (SifFillError ''SIF template does not contain form fields (AcroForm)'')"
  using assms by (simp add: fill_sif_form_body_def bind_def)

lemma fill_sif_form_error_kind: "fill_sif_form lib tpl field_values = Inl e \<Longrightarrow> is_SifFillError e"
  by (auto simp: fill_sif_form_def split: sum.splits error.splits)

text \<open>
  Claim C7, for a template that the library can open and clone. When the template has
  form fields, \<open>fill_sif_form\<close> returns the written document whatever the value map
  holds and whatever setting a field does (raise \<open>KeyError\<close>, raise anything else, or
  succeed): the fields that raised are reported in the printed warnings and the loop
  goes on. When it has none, \<open>fill_sif_form\<close> raises \<open>SifFillError\<close>. If writing never
  fails, the missing form fields are the only reason for a failure. Every exception of
  \<open>fill_sif_form\<close> is a \<open>SifFillError\<close>. \<open>get_form_fields\<close> on a template without fields
  returns the empty table.
\<close>

theorem fill_sif_form_only_fatal_without_fields:
  assumes "PdfReader lib tpl = Inr reader"
    and "clone_document_from_reader lib reader = Inr writer"
  shows "(\<forall>fs out. writer_get_fields lib writer = Inr (Some fs)
            \<and> writer_write lib (fst (fill_loop lib writer field_values [])) = Inr out
          \<longrightarrow> fill_sif_form lib tpl field_values
                = Inr (out, snd (fill_loop lib writer field_values [])))
     \<and> (writer_get_fields lib writer = Inr None
          \<longrightarrow> fill_sif_form lib tpl field_values
                = Inl (SifFillError ''SIF template does not contain form fields (AcroForm)''))
     \<and> (\<forall>fields. (\<forall>w. \<exists>out. writer_write lib w = Inr out)
            \<and> writer_get_fields lib writer = Inr fields
          \<longrightarrow> ((\<exists>e. fill_sif_form lib tpl field_values = Inl e) \<longleftrightarrow> fields = None))
     \<and> (\<forall>e. fill_sif_form lib tpl field_values = Inl e \<longrightarrow> is_SifFillError e)
     \<and> (reader_get_fields lib reader = Inr None \<longrightarrow> get_form_fields lib tpl = [])"
proof (intro conjI allI impI)
  fix fs out
  assume h: "writer_get_fields lib writer = Inr (Some fs)
     \<and> writer_write lib (fst (fill_loop lib writer field_values [])) = Inr out"
  then show "fill_sif_form lib tpl field_values
                = Inr (out, snd (fill_loop lib writer field_values []))"
    using fill_sif_form_body_fields[OF assms, of fs field_values]
    by (simp add: fill_sif_form_def bind_def)
next
  assume "writer_get_fields lib writer = Inr None"
  then show "fill_sif_form lib tpl field_values
                = Inl (SifFillError ''SIF template does not contain form fields (AcroForm)'')"
    using fill_sif_form_body_no_fields[OF assms, of field_values]
    by (simp add: fill_sif_form_def)
next
  fix fields
  assume h: "(\<forall>w. \<exists>out. writer_write lib w = Inr out)
     \<and> writer_get_fields lib writer = Inr fields"
  show "(\<exists>e. fill_sif_form lib tpl field_values = Inl e) \<longleftrightarrow> fields = None"
  proof (cases fields)
    case None
    then show ?thesis
      using h fill_sif_form_body_no_fields[OF assms, of field_values]
      by (simp add: fill_sif_form_def)
  next
    case (Some fs)
    from h obtain out where
      "writer_write lib (fst (fill_loop lib writer field_values [])) = Inr out" by blast
    then show ?thesis
      using h Some fill_sif_form_body_fields[OF assms, of fs field_values]
      by (simp add: fill_sif_form_def bind_def)
  qed
next
  fix e assume "fill_sif_form lib tpl field_values = Inl e"
  then show "is_SifFillError e" by (rule fill_sif_form_error_kind)
next
  assume "reader_get_fields lib reader = Inr None"
  then show "get_form_fields lib tpl = []"
    using assms by (simp add: get_form_fields_def bind_def)
qed


theorem fill_sif_form_only_fatal_without_fields_witness:
  "fill_sif_form mem_lib
       (Some \<lparr>mem_pages = [], mem_fields = Some [(''A'', blank_field), (''B'', blank_field)]\<rparr>)
       [(''C'', ''y''), (''A'', ''x'')]
     = Inr (Some \<lparr>mem_pages = [],
                   mem_fields = Some [(''A'', blank_field\<lparr>V := Some ''x''\<rparr>), (''B'', blank_field)]\<rparr>,
            [FieldNotFound ''C''])
   \<and> fill_sif_form mem_lib (Some \<lparr>mem_pages = [], mem_fields = None\<rparr>)
       [(''C'', ''y''), (''A'', ''x'')]
     = Inl (SifFillError ''SIF template does not contain form fields (AcroForm)'')
   \<and> get_form_fields mem_lib (Some \<lparr>mem_pages = [], mem_fields = None\<rparr>) = []"
  using fill_sif_form_only_fatal_without_fields[of mem_lib
      "Some \<lparr>mem_pages = [], mem_fields = Some [(''A'', blank_field), (''B'', blank_field)]\<rparr>"
      "\<lparr>mem_pages = [], mem_fields = Some [(''A'', blank_field), (''B'', blank_field)]\<rparr>"
      "\<lparr>mem_pages = [], mem_fields = Some [(''A'', blank_field), (''B'', blank_field)]\<rparr>"
      "[(''C'', ''y''), (''A'', ''x'')]"]
    fill_sif_form_only_fatal_without_fields[of mem_lib
      "Some \<lparr>mem_pages = [], mem_fields = None\<rparr>"
      "\<lparr>mem_pages = [], mem_fields = None\<rparr>"
      "\<lparr>mem_pages = [], mem_fields = None\<rparr>"
      "[(''C'', ''y''), (''A'', ''x'')]"]
  by (simp add: mem_lib_def mem_update_def)

section \<open>Characters\<close>

lemma code_point_inj: "code_point c = code_point d \<longleftrightarrow> c = d"
  by (simp add: code_point_def)

lemma code_point_less: "code_point c < 256"
proof -
  have "code_point c mod 256 = code_point c" by (simp add: code_point_def)
  then show ?thesis by (metis mod_less_divisor zero_less_numeral)
qed

lemma code_point_char_of: "n < 256 \<Longrightarrow> code_point (char_of n) = n"
  by (simp add: code_point_def)

lemma lower_code_point:
  "code_point (lower c) =
     (if (65 \<le> code_point c \<and> code_point c \<le> 90)
         \<or> (192 \<le> code_point c \<and> code_point c \<le> 222 \<and> code_point c \<noteq> 215)
      then code_point c + 32 else code_point c)"
  using code_point_less[of c] by (auto simp: lower_def Let_def code_point_char_of)

lemma upper_code_point:
  "code_point (upper c) =
     (if (97 \<le> code_point c \<and> code_point c \<le> 122)
         \<or> (224 \<le> code_point c \<and> code_point c \<le> 254 \<and> code_point c \<noteq> 247)
      then code_point c - 32 else code_point c)"
  using code_point_less[of c] by (auto simp: upper_def Let_def code_point_char_of)

lemma char_eq_code: "c = d \<longleftrightarrow> code_point c = code_point d"
  by (simp add: code_point_inj)






lemma code_point_Char:
  "code_point (Char b0 b1 b2 b3 b4 b5 b6 b7) =
     of_bool b0 + 2 * of_bool b1 + 4 * of_bool b2 + 8 * of_bool b3 + 16 * of_bool b4
       + 32 * of_bool b5 + 64 * of_bool b6 + 128 * of_bool b7"
  by (simp add: code_point_def)

lemma code_point_with_bit5:
  "code_point (with_bit5 b c) + 32 * of_bool (digit5 c) = code_point c + 32 * of_bool b"
  by (cases c) (simp add: with_bit5_def code_point_Char)

lemma bit5_clear_upper:
  assumes "(65 \<le> code_point c \<and> code_point c \<le> 90)
         \<or> (192 \<le> code_point c \<and> code_point c \<le> 222)"
  shows "\<not> digit5 c"
proof (cases c)
  case (Char b0 b1 b2 b3 b4 b5 b6 b7)
  show ?thesis using assms unfolding Char code_point_Char
    by (cases b5; cases b6; cases b7; cases b4; cases b3; cases b2; cases b1; cases b0) simp_all
qed

lemma bit5_set_lower:
  assumes "(97 \<le> code_point c \<and> code_point c \<le> 122)
         \<or> (224 \<le> code_point c \<and> code_point c \<le> 254)"
  shows "digit5 c"
proof (cases c)
  case (Char b0 b1 b2 b3 b4 b5 b6 b7)
  show ?thesis using assms unfolding Char code_point_Char
    by (cases b5; cases b6; cases b7; cases b4; cases b3; cases b2; cases b1; cases b0) simp_all
qed

lemma lower_code [code]:
  "lower c = (let n = code_point c in
      if (65 \<le> n \<and> n \<le> 90) \<or> (192 \<le> n \<and> n \<le> 222 \<and> n \<noteq> 215)
      then with_bit5 True c else c)"
proof (cases "(65 \<le> code_point c \<and> code_point c \<le> 90)
         \<or> (192 \<le> code_point c \<and> code_point c \<le> 222 \<and> code_point c \<noteq> 215)")
  case True
  then have "\<not> digit5 c" using bit5_clear_upper[of c] by blast
  then have "code_point (with_bit5 True c) = code_point c + 32"
    using code_point_with_bit5[of True c] by simp
  moreover have "code_point (lower c) = code_point c + 32"
    using True by (simp only: lower_code_point if_True)
  ultimately have "lower c = with_bit5 True c" by (simp add: char_eq_code)
  then show ?thesis unfolding Let_def using True by (simp only: if_True)
next
  case False
  have "lower c = c" unfolding lower_def Let_def using False by (simp only: if_False)
  then show ?thesis unfolding Let_def using False by (simp only: if_False)
qed

lemma upper_code [code]:
  "upper c = (let n = code_point c in
      if (97 \<le> n \<and> n \<le> 122) \<or> (224 \<le> n \<and> n \<le> 254 \<and> n \<noteq> 247)
      then with_bit5 False c else c)"
proof (cases "(97 \<le> code_point c \<and> code_point c \<le> 122)
         \<or> (224 \<le> code_point c \<and> code_point c \<le> 254 \<and> code_point c \<noteq> 247)")
  case True
  then have "digit5 c" using bit5_set_lower[of c] by blast
  then have "code_point (with_bit5 False c) + 32 = code_point c"
    using code_point_with_bit5[of False c] by simp
  moreover have "code_point (upper c) = code_point c - 32"
    using True by (simp only: upper_code_point if_True)
  ultimately have "upper c = with_bit5 False c" by (simp add: char_eq_code)
  then show ?thesis unfolding Let_def using True by (simp only: if_True)
next
  case False
  have "upper c = c" unfolding upper_def Let_def using False by (simp only: if_False)
  then show ?thesis unfolding Let_def using False by (simp only: if_False)
qed

section \<open>Matches of the regular expressions\<close>

lemma rx_match_Rep:
  assumes "c \<in> set (rx_match ic (Rep cls lo hi) prev s)"
  shows "lo \<le> length c" and "hi = Some h \<Longrightarrow> length c \<le> h"
    and "\<And>x. x \<in> set c \<Longrightarrow> in_class ic cls x"
proof -
  define run where "run = length (takeWhile (in_class ic cls) s)"
  define n where "n = (case hi of None \<Rightarrow> run | Some h \<Rightarrow> min h run)"
  from assms have "c \<in> set (map (\<lambda>k. take k s) (rev [lo ..< Suc n]))"
    unfolding run_def n_def by (simp add: Let_def)
  then obtain k where "k \<in> set [lo ..< Suc n]" and c: "c = take k s" by auto
  then have k: "lo \<le> k" "k \<le> n" by auto
  have nrun: "n \<le> run" by (simp add: n_def split: option.splits)
  have runlen: "run \<le> length s" unfolding run_def by (rule length_takeWhile_le)
  have len: "length c = k" using c k nrun runlen by simp
  show "lo \<le> length c" using len k by simp
  show "hi = Some h \<Longrightarrow> length c \<le> h" using len k by (simp add: n_def)
  have "c = take k (takeWhile (in_class ic cls) s)"
  proof -
    have "take k s = take k (takeWhile (in_class ic cls) s @ dropWhile (in_class ic cls) s)"
      by simp
    also have "\<dots> = take k (takeWhile (in_class ic cls) s)"
      using k nrun unfolding run_def by (simp del: takeWhile_dropWhile_id)
    finally show ?thesis using c by simp
  qed
  then have "set c \<subseteq> set (takeWhile (in_class ic cls) s)" by (metis set_take_subset)
  then show "\<And>x. x \<in> set c \<Longrightarrow> in_class ic cls x" by (auto dest: set_takeWhileD)
qed



lemma re_search_Some:
  "re_search ic p prev s = Some m \<Longrightarrow>
     \<exists>i prev'. i \<le> length s \<and> m \<in> set (pat_match ic p prev' (drop i s))"
proof (induction s arbitrary: prev)
  case Nil
  then have "m \<in> set (pat_match ic p prev [])" by (auto split: list.splits)
  then show ?case by auto
next
  case (Cons x xs)
  show ?case
  proof (cases "pat_match ic p prev (x # xs)")
    case Nil
    with Cons.prems have "re_search ic p (Some x) xs = Some m" by simp
    from Cons.IH[OF this] obtain i prev' where "i \<le> length xs"
      "m \<in> set (pat_match ic p prev' (drop i xs))" by blast
    then have "Suc i \<le> length (x # xs)" "m \<in> set (pat_match ic p prev' (drop (Suc i) (x # xs)))"
      by simp_all
    then show ?thesis by blast
  next
    case (Cons m' ms)
    with Cons.prems have "m = m'" by simp
    with Cons have "m \<in> set (pat_match ic p prev (drop 0 (x # xs)))" by simp
    then show ?thesis by blast
  qed
qed

lemma pat_match_group:
  assumes "(c1, g) \<in> set (pat_match ic (Pattern pre grp) prev s)"
  shows "\<exists>prev' s'. g \<in> set (rx_match ic grp prev' s')"
  using assms by auto

lemma sublist_strip: "sublist (strip g) g"
proof -
  let ?a = "dropWhile is_space g"
  have "suffix ?a g" by (rule suffix_dropWhile)
  moreover have "prefix (strip g) ?a"
  proof -
    have "suffix (dropWhile is_space (rev ?a)) (rev ?a)" by (rule suffix_dropWhile)
    then have "prefix (rev (dropWhile is_space (rev ?a))) (rev (rev ?a))"
      by (simp only: suffix_to_prefix)
    then show ?thesis by (simp add: strip_def)
  qed
  ultimately show ?thesis
    by (meson prefix_imp_sublist suffix_imp_sublist sublist_order.order_trans)
qed

lemma strip_no_space: "(\<And>x. x \<in> set g \<Longrightarrow> \<not> is_space x) \<Longrightarrow> strip g = g"
proof -
  assume a: "\<And>x. x \<in> set g \<Longrightarrow> \<not> is_space x"
  have d: "\<And>xs. (\<And>x. x \<in> set xs \<Longrightarrow> \<not> is_space x) \<Longrightarrow> dropWhile is_space xs = xs"
  proof -
    fix xs :: string assume "\<And>x. x \<in> set xs \<Longrightarrow> \<not> is_space x"
    then show "dropWhile is_space xs = xs" by (cases xs) auto
  qed
  have 1: "dropWhile is_space g = g" using a by (rule d)
  have 2: "dropWhile is_space (rev g) = rev g" using a by (intro d) simp
  show ?thesis by (simp add: strip_def 1 2)
qed

text \<open>What \<open>find\<close> returns is group 1 of a match somewhere in the text, stripped.\<close>

lemma find_Some:
  assumes "find text ic (Pattern pre grp) = Some v"
  obtains g prev' s' where "v = strip g" "g \<in> set (rx_match ic grp prev' s')" "sublist g text"
proof -
  from assms obtain c1 g where s: "re_search ic (Pattern pre grp) None text = Some (c1, g)"
    and v: "v = strip g"
    by (auto simp: find_def split: option.splits)
  from re_search_Some[OF s] obtain i prev' where i: "i \<le> length text"
    and m: "(c1, g) \<in> set (pat_match ic (Pattern pre grp) prev' (drop i text))" by blast
  from pat_match_group[OF m] obtain prev'' s' where g: "g \<in> set (rx_match ic grp prev'' s')"
    by blast
  from pat_match_length[OF m]
  have "drop i text = c1 @ g @ drop (length c1 + length g) (drop i text)" .
  then have "text = (take i text @ c1) @ g @ drop (length c1 + length g) (drop i text)"
    by (metis append_take_drop_id append.assoc)
  then have "sublist g text" unfolding sublist_def by blast
  with v g that show ?thesis by blast
qed


section \<open>The shape of the network values\<close>

lemma split_on_nonempty: "split_on d s \<noteq> []"
  by (induction s) (auto split: list.splits)























section \<open>The generic patterns\<close>

lemma map_append_Nil: "map ((@) []) xs = xs"
  by (induction xs) simp_all

lemma concat_map_anchor:
  "concat (map (\<lambda>c1. map ((@) c1) (g c1)) (if b then [[]] else [])) = (if b then g [] else [])"
  by (cases b) (simp_all add: map_append_Nil)

lemma rx_match_Bol_Seq:
  "rx_match ic (Seq Bol L) prev s =
     (if prev = None \<or> prev = Some (CHR 0x0A) then rx_match ic L prev s else [])"
proof -
  have "rx_match ic (Seq Bol L) prev s =
      concat (map (\<lambda>c1. map ((@) c1) (rx_match ic L (after prev c1) (drop (length c1) s)))
        (if prev = None \<or> prev = Some (CHR 0x0A) then [[]] else []))"
    by (simp only: rx_match.simps)
  also have "\<dots> = (if prev = None \<or> prev = Some (CHR 0x0A)
      then rx_match ic L (after prev []) (drop (length ([]::string)) s) else [])"
    by (rule concat_map_anchor)
  also have "rx_match ic L (after prev []) (drop (length ([]::string)) s) = rx_match ic L prev s"
    by (simp add: after_def)
  finally show ?thesis .
qed

lemma concat_map_doubled:
  "concat (map f ((if b then xs else []) @ xs)) =
     (if b then concat (map f xs) else []) @ concat (map f xs)"
  by (cases b) simp_all

lemma rx_match_anchor_alt:
  "rx_match ic (Seq (Alt (Seq Bol L) L) sp) prev s =
     (if prev = None \<or> prev = Some (CHR 0x0A) then rx_match ic (Seq L sp) prev s else [])
     @ rx_match ic (Seq L sp) prev s"
  unfolding rx_match.simps(4)[of ic L sp] rx_match.simps(4)[of ic "Alt (Seq Bol L) L" sp]
    rx_match.simps(5) rx_match_Bol_Seq concat_map_doubled ..

lemma pat_match_anchor_alt:
  "pat_match ic (Pattern (Seq (Alt (Seq Bol L) L) sp) grp) prev s =
     (if prev = None \<or> prev = Some (CHR 0x0A)
      then pat_match ic (Pattern (Seq L sp) grp) prev s else [])
     @ pat_match ic (Pattern (Seq L sp) grp) prev s"
  unfolding pat_match.simps rx_match_anchor_alt concat_map_doubled ..

lemma first_of_doubled:
  "(case (if b then xs else []) @ xs of [] \<Rightarrow> n | m # ms \<Rightarrow> f m) = (case xs of [] \<Rightarrow> n | m # ms \<Rightarrow> f m)"
  by (cases xs) simp_all

lemma re_search_anchor_alt:
  "re_search ic (Pattern (Seq (Alt (Seq Bol L) L) sp) grp) prev s =
   re_search ic (Pattern (Seq L sp) grp) prev s"
proof (induction s arbitrary: prev)
  case Nil
  show ?case
    unfolding re_search.simps pat_match_anchor_alt first_of_doubled ..
next
  case (Cons x xs)
  show ?case
    unfolding re_search.simps pat_match_anchor_alt first_of_doubled Cons.IH ..
qed

lemma find_anchor_alt:
  "find text ic (Pattern (Seq (alts [Seq Bol (Lit w), Lit w]) sep) to_eol) =
   find text ic (unanchored_pattern w)"
  by (simp only: find_def unanchored_pattern_def alts.simps re_search_anchor_alt)

lemma fallback_value:
  "py_or (if truthy n \<and> \<not> truthy d then n else d) n = (if truthy d then d else n)"
  by (simp add: py_or_def)

section \<open>The fallback of the unit number and the farm\<close>

lemma parse_turbine_number:
  "turbine_number (parse_cms_report text) =
      (if truthy (find text True turbine_number_pattern) then find text True turbine_number_pattern
       else find text False name_pattern)"
  by (simp add: parse_cms_report_def Let_def fallback_value)

lemma parse_wind_farm:
  "wind_farm (parse_cms_report text) =
      (if truthy (find text True wind_farm_pattern) then find text True wind_farm_pattern
       else find text False number_pattern)"
  by (simp add: parse_cms_report_def Let_def fallback_value)

lemma scenario_B_dedicated: "find ''Name: T-004'' True turbine_number_pattern = None"
  by code_simp

lemma scenario_B_generic: "find ''Name: T-004'' False name_pattern = Some ''T-004''"
  by code_simp

lemma midline_dedicated: "find ''Turbine Number: 5'' True wind_farm_pattern = None"
  by code_simp

lemma midline_anchored: "find ''Turbine Number: 5'' False (line_anchored_pattern ''Number'') = None"
  by code_simp

lemma midline_generic: "find ''Turbine Number: 5'' False number_pattern = Some ''5''"
  by code_simp

text \<open>
  Claim C4 as stated fails in that the generic patterns are not anchored at a line:
  the alternative \<open>Number\<close> of \<open>(?:^Number|Number)\<close> matches anywhere. In the text
  \<open>Turbine Number: 5\<close> no line starts with \<open>Number\<close> (the pattern anchored at the line
  finds nothing) and the dedicated pattern of the farm finds nothing, yet the farm is
  \<open>5\<close>.
\<close>

theorem fallback_not_line_anchored_counterexample:
  "find ''Turbine Number: 5'' True wind_farm_pattern = None
   \<and> find ''Turbine Number: 5'' False (line_anchored_pattern ''Number'') = None
   \<and> wind_farm (parse_cms_report ''Turbine Number: 5'') = Some ''5''"
  by (simp add: parse_wind_farm midline_dedicated midline_anchored midline_generic)

text \<open>
  Claim C4, amended. For every input text, the unit number is the non-empty result of
  its dedicated pattern when there is one, and otherwise the result of the generic
  pattern \<open>(?:^Name|Name)[:\s]+([^\n]+)\<close>; the farm is the non-empty result of its
  dedicated pattern when there is one, and otherwise the result of the generic pattern
  \<open>(?:^Number|Number)[:\s]+([^\n]+)\<close>. So the fallback goes one way only (the \<open>Name\<close>
  match never gives the farm, the \<open>Number\<close> match never gives the unit number) and
  never replaces a non-empty dedicated match. Each generic pattern finds what the same
  pattern without the line anchor finds: it matches the word anywhere in the text.
  For the text \<open>Name: T-004\<close> the unit number is \<open>T-004\<close>.
\<close>

theorem fallback_is_forward_only:
  "turbine_number (parse_cms_report text) =
      (if truthy (find text True turbine_number_pattern) then find text True turbine_number_pattern
       else find text False name_pattern)
   \<and> wind_farm (parse_cms_report text) =
      (if truthy (find text True wind_farm_pattern) then find text True wind_farm_pattern
       else find text False number_pattern)
   \<and> find text False name_pattern = find text False (unanchored_pattern ''Name'')
   \<and> find text False number_pattern = find text False (unanchored_pattern ''Number'')
   \<and> turbine_number (parse_cms_report ''Name: T-004'') = Some ''T-004''"
proof -
  have 3: "find text False name_pattern = find text False (unanchored_pattern ''Name'')"
    unfolding name_pattern_def by (rule find_anchor_alt)
  have 4: "find text False number_pattern = find text False (unanchored_pattern ''Number'')"
    unfolding number_pattern_def by (rule find_anchor_alt)
  have 5: "turbine_number (parse_cms_report ''Name: T-004'') = Some ''T-004''"
    by (simp add: parse_turbine_number scenario_B_dedicated scenario_B_generic)
  show ?thesis using parse_turbine_number parse_wind_farm 3 4 5 by blast
qed


lemma dedicated_wins_dedicated: "find ''WTG 7 Name: X'' True turbine_number_pattern = Some ''7''"
  by code_simp

lemma dedicated_wins_generic: "find ''WTG 7 Name: X'' False name_pattern = Some ''X''"
  by code_simp

theorem fallback_is_forward_only_witness:
  "find ''Name: T-004'' True turbine_number_pattern = None
   \<and> find ''Name: T-004'' False name_pattern = Some ''T-004''
   \<and> turbine_number (parse_cms_report ''Name: T-004'') = Some ''T-004''
   \<and> find ''WTG 7 Name: X'' True turbine_number_pattern = Some ''7''
   \<and> find ''WTG 7 Name: X'' False name_pattern = Some ''X''
   \<and> turbine_number (parse_cms_report ''WTG 7 Name: X'') = Some ''7''"
  using fallback_is_forward_only[of "''Name: T-004''"] fallback_is_forward_only[of "''WTG 7 Name: X''"]
  by (simp add: scenario_B_dedicated scenario_B_generic dedicated_wins_dedicated
      dedicated_wins_generic)

section \<open>The default service date\<close>

lemma in_class_date_char_not_space: "in_class ic date_char c \<Longrightarrow> \<not> is_space c"
proof -
  have d: "\<And>x. date_char x \<longleftrightarrow> (48 \<le> code_point x \<and> code_point x \<le> 57) \<or> code_point x = 47
      \<or> code_point x = 45 \<or> code_point x = 46"
    by (auto simp: date_char_def is_digit_def Let_def char_eq_code code_point_def[of "CHR ''/''"]
        code_point_def[of "CHR ''-''"] code_point_def[of "CHR ''.''"])
  have s: "is_space c \<Longrightarrow> \<not> date_char c \<and> \<not> date_char (lower c) \<and> \<not> date_char (upper c)"
    unfolding d lower_code_point upper_code_point by (simp add: is_space_def Let_def) arith
  show "in_class ic date_char c \<Longrightarrow> \<not> is_space c"
    using s by (auto simp: in_class_def split: if_splits)
qed

lemma parse_service_date:
  "service_date (parse_cms_report text) = find text True service_date_pattern"
  by (simp add: parse_cms_report_def Let_def)

lemma service_date_nonempty:
  assumes "service_date (parse_cms_report text) = Some v"
  shows "v \<noteq> []"
proof -
  from assms have "find text True (Pattern (Seq (alts [words [''Service'', ''Date''],
        words [''Inspection'', ''Date''], Lit ''Date'']) sep) (Rep date_char 1 None)) = Some v"
    by (simp only: parse_service_date service_date_pattern_def)
  then obtain g prev' s' where v: "v = strip g"
    and g: "g \<in> set (rx_match True (Rep date_char 1 None) prev' s')"
    by (rule find_Some)
  have "strip g = g"
    using rx_match_Rep(3)[OF g] in_class_date_char_not_space by (intro strip_no_space) blast
  moreover have "g \<noteq> []" using rx_match_Rep(1)[OF g] by auto
  ultimately show ?thesis using v by simp
qed

lemma extract_cms_service_date:
  "service_date (extract_cms now text) =
     (case service_date (parse_cms_report text) of
        Some v \<Rightarrow> Some v
      | None \<Rightarrow> Some (strftime_mdY now))"
proof (cases "service_date (parse_cms_report text)")
  case None
  then show ?thesis by (simp add: extract_cms_def Let_def)
next
  case (Some v)
  then have "truthy (service_date (parse_cms_report text))"
    using service_date_nonempty[OF Some] by simp
  then show ?thesis using Some by (simp add: extract_cms_def Let_def)
qed


lemma is_digit_digit_char: "is_digit (digit_char n)"
proof -
  have "48 + n mod 10 < 256" by simp
  then have "code_point (digit_char n) = 48 + n mod 10"
    unfolding digit_char_def by (rule code_point_char_of)
  then show ?thesis by (simp add: is_digit_def Let_def)
qed

lemma strftime_shape: "mdY_shape (strftime_mdY d)"
  by (simp add: mdY_shape_def strftime_mdY_def is_digit_digit_char)

lemma process_cms_report_is_parse:
  assumes "process_cms_report lib cms_pdf_bytes = Inr cms"
  shows "\<exists>text flag. extract_pdf_text lib cms_pdf_bytes = Inr (text, flag)
           \<and> cms = parse_cms_report text"
proof (cases "extract_pdf_text lib cms_pdf_bytes")
  case (Inl e)
  then have "\<exists>e'. process_cms_report lib cms_pdf_bytes = Inl e'"
    by (cases e) (simp_all add: process_cms_report_def)
  with assms show ?thesis by simp
next
  case (Inr tf)
  obtain text0 needs_ocr where tf: "tf = (text0, needs_ocr)" by (cases tf)
  have p: "prefix ''[OCR not yet implemented'' (extract_text_with_ocr cms_pdf_bytes)"
    by (simp add: extract_text_with_ocr_def)
  have "process_cms_report lib cms_pdf_bytes = Inr (parse_cms_report text0)"
    using Inr tf p by (simp add: process_cms_report_def Let_def)
  with assms Inr tf show ?thesis by simp
qed

lemma get_mapping_report_body_details:
  assumes "get_mapping_report_body lib cms tpl cm = Inr st"
  shows "mapping_details st = cms_to_sif_field_values cms cm"
proof (cases "PdfReader lib tpl")
  case (Inl e)
  with assms show ?thesis by (simp add: get_mapping_report_body_def bind_def)
next
  case (Inr reader)
  note r = this
  show ?thesis
  proof (cases "reader_get_fields lib reader")
    case (Inl e)
    with assms r show ?thesis by (simp add: get_mapping_report_body_def bind_def)
  next
    case (Inr fields)
    with assms r show ?thesis
      by (auto simp: get_mapping_report_body_def bind_def Let_def)
  qed
qed

lemma create_filled_sif_details:
  assumes "create_filled_sif lib cms tpl cm debug = Inr (filled, Report r)"
  shows "mapping_details r = cms_to_sif_field_values cms cm"
proof (cases "fill_sif_form lib tpl (cms_to_sif_field_values cms cm)")
  case (Inl e)
  with assms show ?thesis by (simp add: create_filled_sif_def bind_def)
next
  case (Inr fp)
  obtain filled_pdf printed where fp: "fp = (filled_pdf, printed)" by (cases fp)
  show ?thesis
  proof (cases "get_mapping_report_body lib cms tpl cm")
    case (Inl e)
    then have "get_mapping_report lib cms tpl cm
        = Inr (ErrorReport (''Could not generate mapping report: '' @ str_of e))"
      by (simp add: get_mapping_report_def)
    with assms Inr fp show ?thesis
      by (cases debug) (simp_all add: create_filled_sif_def bind_def)
  next
    case (Inr st)
    then have "get_mapping_report lib cms tpl cm = Inr (Report st)"
      by (simp add: get_mapping_report_def)
    with assms \<open>fill_sif_form lib tpl (cms_to_sif_field_values cms cm) = Inr fp\<close> fp
    have "r = st" by (simp add: create_filled_sif_def bind_def)
    with get_mapping_report_body_details[OF Inr] show ?thesis by simp
  qed
qed

lemma create_sif_from_cms_Inr:
  assumes "create_sif_from_cms lib cms tpl cm debug = Inr x"
  shows "create_filled_sif lib cms tpl cm debug = Inr x"
proof (cases "create_filled_sif lib cms tpl cm debug")
  case (Inl e)
  then have "\<exists>e'. create_sif_from_cms lib cms tpl cm debug = Inl e'"
    by (cases e) (simp_all add: create_sif_from_cms_def)
  with assms show ?thesis by simp
next
  case (Inr y)
  with assms show ?thesis by (simp add: create_sif_from_cms_def)
qed

lemma convert_cms_to_sif_projects_parse:
  assumes "convert_cms_to_sif lib cms_pdf_bytes tpl cm debug = Inr (filled, Report r)"
  shows "\<exists>text flag. extract_pdf_text lib cms_pdf_bytes = Inr (text, flag)
           \<and> mapping_details r = cms_to_sif_field_values (parse_cms_report text) cm"
proof (cases "process_cms_report lib cms_pdf_bytes")
  case (Inl e)
  with assms show ?thesis by (simp add: convert_cms_to_sif_def bind_def)
next
  case (Inr cms)
  with assms have "create_sif_from_cms lib cms tpl cm debug = Inr (filled, Report r)"
    by (simp add: convert_cms_to_sif_def bind_def)
  then have "create_filled_sif lib cms tpl cm debug = Inr (filled, Report r)"
    by (rule create_sif_from_cms_Inr)
  then have "mapping_details r = cms_to_sif_field_values cms cm"
    by (rule create_filled_sif_details)
  with process_cms_report_is_parse[OF Inr] show ?thesis by blast
qed

lemma parse_scenario_B: "parse_cms_report ''Name: T-004'' =
   CmsReportData_defaults\<lparr>turbine_number := Some ''T-004'', raw_text := Some ''Name: T-004''\<rparr>"
proof -
  have f: "find ''Name: T-004'' True wind_farm_pattern = None"
    "find ''Name: T-004'' True turbine_type_pattern = None"
    "find ''Name: T-004'' True location_pattern = None"
    "find ''Name: T-004'' True site_address_pattern = None"
    "find ''Name: T-004'' True service_life_year_pattern = None"
    "find_all ''Name: T-004'' True technicians_list_pattern = []"
    "find ''Name: T-004'' True technicians_pattern = None"
    "find ''Name: T-004'' True service_manager_pattern = None"
    "find ''Name: T-004'' True commissioning_date_pattern = None"
    "find ''Name: T-004'' True service_date_pattern = None"
    "find ''Name: T-004'' True ddaus_mac_pattern = None"
    "find ''Name: T-004'' True ip_address_pattern = None"
    "find ''Name: T-004'' True gateway_pattern = None"
    "find ''Name: T-004'' True controller_type_pattern = None"
    "find ''Name: T-004'' True das_server_pattern = None"
    "find ''Name: T-004'' True serial_number_pattern = None"
    "find ''Name: T-004'' True firmware_version_pattern = None"
    "find ''Name: T-004'' False number_pattern = None"
    by code_simp+
  show ?thesis
    unfolding parse_cms_report_def f scenario_B_dedicated scenario_B_generic Let_def
    by (simp add: py_or_def CmsReportData_defaults_def)
qed

lemma example_extract: "extract_pdf_text mem_lib report_pdf = Inr (''Name: T-004'', True)"
  by code_simp

lemma example_process:
  "process_cms_report mem_lib report_pdf = Inr (parse_cms_report ''Name: T-004'')"
  by (simp add: process_cms_report_def example_extract extract_text_with_ocr_def)

lemma example_values:
  "cms_to_sif_field_values
     (CmsReportData_defaults\<lparr>turbine_number := Some ''T-004'', raw_text := Some ''Name: T-004''\<rparr>) None
   = [(''Wind turbine number'', ''T-004'')]"
  by code_simp

lemma example_fill:
  "fill_sif_form mem_lib template_pdf [(''Wind turbine number'', ''T-004'')] =
     Inr (Some \<lparr>mem_pages = [],
                 mem_fields = Some [(''Date'', blank_field),
                                    (''Wind turbine number'', blank_field\<lparr>V := Some ''T-004''\<rparr>)]\<rparr>, [])"
  by code_simp

lemma example_report:
  "get_mapping_report mem_lib
     (CmsReportData_defaults\<lparr>turbine_number := Some ''T-004'', raw_text := Some ''Name: T-004''\<rparr>)
     template_pdf None =
   Inr (Report \<lparr>cms_total_fields = 1, cms_extracted_fields = [''turbine_number''],
          sif_total_fields = 2, sif_field_names = [''Date'', ''Wind turbine number''],
          total_mappings = 23, successfully_mapped = 1,
          mapping_details = [(''Wind turbine number'', ''T-004'')],
          unmapped_cms_fields = [], unfilled_sif_fields = [''Date''],
          cms_coverage = Percent 1 1, sif_coverage = Percent 1 2\<rparr>)"
  by code_simp

lemma example_convert:
  "convert_cms_to_sif mem_lib report_pdf template_pdf None False =
     Inr (Some \<lparr>mem_pages = [],
                 mem_fields = Some [(''Date'', blank_field),
                                    (''Wind turbine number'', blank_field\<lparr>V := Some ''T-004''\<rparr>)]\<rparr>,
          Report \<lparr>cms_total_fields = 1, cms_extracted_fields = [''turbine_number''],
            sif_total_fields = 2, sif_field_names = [''Date'', ''Wind turbine number''],
            total_mappings = 23, successfully_mapped = 1,
            mapping_details = [(''Wind turbine number'', ''T-004'')],
            unmapped_cms_fields = [], unfilled_sif_fields = [''Date''],
            cms_coverage = Percent 1 1, sif_coverage = Percent 1 2\<rparr>)"
  by (simp add: convert_cms_to_sif_def create_sif_from_cms_def create_filled_sif_def bind_def
      example_process parse_scenario_B example_values example_fill example_report)

lemma example_today: "strftime_mdY \<lparr>year = 2026, month = 11, day = 4\<rparr> = ''11/04/2026''"
  by code_simp

lemma example_dated: "find ''Date: 01/02/2024'' True service_date_pattern = Some ''01/02/2024''"
  by code_simp


text \<open>
  Claim C2 says that \<open>convert_cms_to_sif\<close> fills an absent service date with the current
  date after the extraction and before the projection. The function is evaluated
  here on a report whose text is \<open>Name: T-004\<close> and a template with the fields \<open>Date\<close>
  and \<open>Wind turbine number\<close>: it returns the template with \<open>Date\<close> unfilled and a report
  whose mapped values hold no date, whatever the current date is. The handler
  \<open>extract_cms\<close> of the page, run on the same text, gives the record the current date.
\<close>

theorem convert_cms_to_sif_fills_no_date:
  "convert_cms_to_sif mem_lib report_pdf template_pdf None False =
     Inr (Some \<lparr>mem_pages = [],
                 mem_fields = Some [(''Date'', blank_field),
                                    (''Wind turbine number'', blank_field\<lparr>V := Some ''T-004''\<rparr>)]\<rparr>,
          Report \<lparr>cms_total_fields = 1, cms_extracted_fields = [''turbine_number''],
            sif_total_fields = 2, sif_field_names = [''Date'', ''Wind turbine number''],
            total_mappings = 23, successfully_mapped = 1,
            mapping_details = [(''Wind turbine number'', ''T-004'')],
            unmapped_cms_fields = [], unfilled_sif_fields = [''Date''],
            cms_coverage = Percent 1 1, sif_coverage = Percent 1 2\<rparr>)
   \<and> service_date (extract_cms \<lparr>year = 2026, month = 11, day = 4\<rparr> ''Name: T-004'')
       = Some ''11/04/2026''"
  by (simp add: example_convert extract_cms_service_date parse_scenario_B
      CmsReportData_defaults_def example_today)

text \<open>
  Where the default date is filled. The handler \<open>extract_cms\<close> of the page
  (main\_script.py) fills it after the extraction engine has returned: for every text
  and every current date, its record keeps an extracted service date and otherwise
  has the current date, which is in the format \<open>MM/DD/YYYY\<close>; every other attribute
  is as the engine returned it. The engine itself fills no default: its service date
  is the result of the search for the date pattern. Whenever \<open>process_cms_report\<close>
  returns, its record is the engine's record of the extracted text, and whenever
  \<open>convert_cms_to_sif\<close> returns the statistics, the mapped values are the projection of
  that record: an absent service date stays absent there.
\<close>

theorem default_date_in_page_handler:
  "service_date (extract_cms now text) =
     (case service_date (parse_cms_report text) of
        Some v \<Rightarrow> Some v
      | None \<Rightarrow> Some (strftime_mdY now))
   \<and> extract_cms now text = (parse_cms_report text)\<lparr>service_date := service_date (extract_cms now text)\<rparr>
   \<and> mdY_shape (strftime_mdY now)
   \<and> service_date (parse_cms_report text) = find text True service_date_pattern
   \<and> (\<forall>cms. process_cms_report lib cms_pdf_bytes = Inr cms \<longrightarrow>
         (\<exists>t flag. extract_pdf_text lib cms_pdf_bytes = Inr (t, flag) \<and> cms = parse_cms_report t))
   \<and> (\<forall>filled r. convert_cms_to_sif lib cms_pdf_bytes tpl cm debug = Inr (filled, Report r) \<longrightarrow>
         (\<exists>t flag. extract_pdf_text lib cms_pdf_bytes = Inr (t, flag)
            \<and> mapping_details r = cms_to_sif_field_values (parse_cms_report t) cm))"
proof -
  have 2: "extract_cms now text
      = (parse_cms_report text)\<lparr>service_date := service_date (extract_cms now text)\<rparr>"
    by (simp add: extract_cms_def Let_def)
  have 5: "\<forall>cms. process_cms_report lib cms_pdf_bytes = Inr cms \<longrightarrow>
         (\<exists>t flag. extract_pdf_text lib cms_pdf_bytes = Inr (t, flag) \<and> cms = parse_cms_report t)"
    by (intro allI impI) (rule process_cms_report_is_parse)
  have 6: "\<forall>filled r. convert_cms_to_sif lib cms_pdf_bytes tpl cm debug = Inr (filled, Report r) \<longrightarrow>
         (\<exists>t flag. extract_pdf_text lib cms_pdf_bytes = Inr (t, flag)
            \<and> mapping_details r = cms_to_sif_field_values (parse_cms_report t) cm)"
    by (intro allI impI) (rule convert_cms_to_sif_projects_parse)
  show ?thesis
    by (intro conjI extract_cms_service_date 2 strftime_shape parse_service_date 5 6)
qed


theorem default_date_in_page_handler_witness:
  "service_date (extract_cms \<lparr>year = 2026, month = 11, day = 4\<rparr> ''Name: T-004'')
       = Some ''11/04/2026''
   \<and> mdY_shape ''11/04/2026''
   \<and> service_date (parse_cms_report ''Date: 01/02/2024'') = Some ''01/02/2024''
   \<and> service_date (extract_cms \<lparr>year = 2026, month = 11, day = 4\<rparr> ''Date: 01/02/2024'')
       = Some ''01/02/2024''
   \<and> process_cms_report mem_lib report_pdf = Inr (parse_cms_report ''Name: T-004'')
   \<and> (\<exists>t flag. extract_pdf_text mem_lib report_pdf = Inr (t, flag)
         \<and> parse_cms_report ''Name: T-004'' = parse_cms_report t)
   \<and> (\<exists>t flag. extract_pdf_text mem_lib report_pdf = Inr (t, flag)
         \<and> [(''Wind turbine number'', ''T-004'')]
             = cms_to_sif_field_values (parse_cms_report t) None)"
proof -
  have a: "service_date (parse_cms_report ''Name: T-004'') = None"
    by (simp add: parse_scenario_B CmsReportData_defaults_def)
  have b: "service_date (parse_cms_report ''Date: 01/02/2024'') = Some ''01/02/2024''"
    by (simp add: parse_service_date example_dated)
  show ?thesis
    using default_date_in_page_handler[of "\<lparr>year = 2026, month = 11, day = 4\<rparr>" "''Name: T-004''"
        mem_lib report_pdf template_pdf None False]
      default_date_in_page_handler[of "\<lparr>year = 2026, month = 11, day = 4\<rparr>"
        "''Date: 01/02/2024''" mem_lib report_pdf template_pdf None False]
      a b example_process example_convert
    by (simp add: example_today)
qed

section \<open>Further properties\<close>

text \<open>
  Scenario A of the specification: in a text with the line \<open>wind farm: ABC-12\<close>, the
  label in lower case and blanks after the value, the farm is \<open>ABC-12\<close>.
\<close>

lemma scenario_A_dedicated:
  "find ''Report\<newline>wind farm: ABC-12  \<newline>Name: T-004'' True wind_farm_pattern = Some ''ABC-12''"
  by code_simp

theorem scenario_A_wind_farm:
  "wind_farm (parse_cms_report ''Report\<newline>wind farm: ABC-12  \<newline>Name: T-004'') = Some ''ABC-12''"
  by (simp add: parse_wind_farm scenario_A_dedicated)

text \<open>
  A failure of the report does not lose the filled document: when \<open>fill_sif_form\<close> has
  returned the filled document, \<open>create_filled_sif\<close> without \<open>debug\<close> returns it with
  a report, whatever \<open>get_mapping_report\<close> met.
\<close>

theorem report_failure_keeps_filled_document:
  assumes "fill_sif_form lib sif_template_bytes (cms_to_sif_field_values cms custom_mapping)
             = Inr (filled_pdf, printed)"
  shows "\<exists>report. create_filled_sif lib cms sif_template_bytes custom_mapping False
                    = Inr (filled_pdf, report)"
proof (cases "get_mapping_report_body lib cms sif_template_bytes custom_mapping")
  case (Inl e)
  then show ?thesis using assms
    by (simp add: create_filled_sif_def bind_def get_mapping_report_def)
next
  case (Inr st)
  then show ?thesis using assms
    by (simp add: create_filled_sif_def bind_def get_mapping_report_def)
qed

theorem report_failure_keeps_filled_document_witness:
  "fill_sif_form mem_lib template_pdf
       (cms_to_sif_field_values (CmsReportData_defaults\<lparr>turbine_number := Some ''T-004''\<rparr>) None)
     = Inr (Some \<lparr>mem_pages = [],
                 mem_fields = Some [(''Date'', blank_field),
                                    (''Wind turbine number'', blank_field\<lparr>V := Some ''T-004''\<rparr>)]\<rparr>, [])
   \<and> (\<exists>report. create_filled_sif mem_lib (CmsReportData_defaults\<lparr>turbine_number := Some ''T-004''\<rparr>)
          template_pdf None False
        = Inr (Some \<lparr>mem_pages = [],
                 mem_fields = Some [(''Date'', blank_field),
                                    (''Wind turbine number'', blank_field\<lparr>V := Some ''T-004''\<rparr>)]\<rparr>,
               report))"
proof -
  have v: "cms_to_sif_field_values (CmsReportData_defaults\<lparr>turbine_number := Some ''T-004''\<rparr>) None
      = [(''Wind turbine number'', ''T-004'')]"
    by code_simp
  have f: "fill_sif_form mem_lib template_pdf
       (cms_to_sif_field_values (CmsReportData_defaults\<lparr>turbine_number := Some ''T-004''\<rparr>) None)
     = Inr (Some \<lparr>mem_pages = [],
                 mem_fields = Some [(''Date'', blank_field),
                                    (''Wind turbine number'', blank_field\<lparr>V := Some ''T-004''\<rparr>)]\<rparr>, [])"
    unfolding v by (rule example_fill)
  show ?thesis using report_failure_keeps_filled_document[OF f] f by blast
qed


end
